theory Spec2Isabelle
  imports Complex_Main
begin

section \<open>Values exchanged with the visualisation library\<close>

text \<open>
  The two scripts \<^verbatim>\<open>cfd_flow_animation.py\<close> and \<^verbatim>\<open>motorbike_mesh_visualisation.py\<close>
  only orchestrate calls into PyVista and NumPy. The embedding keeps every call the scripts
  make, with its arguments, as a value: a plotter is the record of what was requested in each
  of its cells. What the library does with a request (rasterisation, VTK camera maths,
  encoding) is outside the scripts and outside the model. Python floats are read as real
  numbers; IEEE rounding is not modelled.
\<close>

type_synonym vec3 = "real \<times> real \<times> real"

text \<open>Exceptions. A bare \<^verbatim>\<open>except:\<close> catches every one of them.\<close>

datatype exn = ZeroDivisionError | LibraryError string

text \<open>Keyword arguments are kept as written in the call, in order.\<close>

datatype kwarg = S string | I int | F real | B bool

type_synonym kwargs = "(string \<times> kwarg) list"

text \<open>
  A PyVista dataset as far as the scripts look at it: \<^verbatim>\<open>.center\<close>, \<^verbatim>\<open>.array_names\<close>
  (the names of the attached arrays), and the points that \<^verbatim>\<open>translate\<close> moves.
\<close>

record dataset =
  center :: vec3
  points :: "vec3 list"
  arrays :: "(string \<times> real list) list"

definition array_names :: "dataset \<Rightarrow> string list" where
  "array_names d = map fst (arrays d)"

text \<open>
  Geometry handed to \<^verbatim>\<open>add_mesh\<close>: a dataset as it is, the library's
  \<^verbatim>\<open>d.slice(origin=o, normal=n)\<close>, or \<^verbatim>\<open>pv.MultiBlock(parts).combine()\<close>.
\<close>

datatype geometry =
    Mesh dataset
  | Slice dataset vec3 vec3
  | Combine "dataset list"

datatype actor =
    Text string kwargs
  | MeshActor geometry kwargs
  | ScalarBar kwargs
  | Axes kwargs

text \<open>
  The camera of one cell: the preset chosen by \<^verbatim>\<open>view_isometric()\<close>, the values assigned
  to \<^verbatim>\<open>camera.azimuth\<close> and \<^verbatim>\<open>camera.elevation\<close>, and the factor passed to
  \<^verbatim>\<open>camera.zoom\<close>.
\<close>

record camera_state =
  view :: string
  azimuth :: real
  elevation :: real
  zoom :: real

record cell =
  actors :: "actor list"
  background :: string
  camera :: camera_state

record plotter =
  options :: kwargs
  active :: "nat \<times> nat"
  cells :: "nat \<times> nat \<Rightarrow> cell"
  movie :: "(string \<times> kwargs) option"
  frames :: "(nat \<times> nat \<Rightarrow> cell) list"
  closed :: bool

text \<open>
  The library calls whose failure the scripts handle: \<^verbatim>\<open>pv.read(path)\<close> and
  \<^verbatim>\<open>volume_mesh.streamlines_from_source(seed_poly, ...)\<close> (the seed \<^verbatim>\<open>PolyData\<close> is given by
  its points). The second is a method of the volumetric dataset and may change the object it
  is called on, whether it returns or raises (PyVista makes the array named by \<^verbatim>\<open>vectors\<close>
  the active one, which \<^verbatim>\<open>array_names\<close> then lists first):
  \<open>volume_after_streamlines\<close> is the dataset as the call leaves it. All three are
  parameters of the model: any behaviour of the library is allowed.
\<close>

record library =
  pv_read :: "string \<Rightarrow> exn + dataset"
  streamlines_from_source :: "dataset \<Rightarrow> vec3 list \<Rightarrow> kwargs \<Rightarrow> exn + dataset"
  volume_after_streamlines :: "dataset \<Rightarrow> vec3 list \<Rightarrow> kwargs \<Rightarrow> dataset"

section \<open>Plotter operations\<close>

definition default_cell :: cell where
  "default_cell =
     \<lparr>actors = [], background = ''default'',
      camera = \<lparr>view = ''default'', azimuth = 0, elevation = 0, zoom = 1\<rparr>\<rparr>"

definition Plotter :: "kwargs \<Rightarrow> plotter" where
  "Plotter kw =
     \<lparr>options = kw, active = (0, 0), cells = (\<lambda>rc. default_cell), movie = None,
      frames = [], closed = False\<rparr>"

definition subplot :: "nat \<Rightarrow> nat \<Rightarrow> plotter \<Rightarrow> plotter" where
  "subplot row col p = p\<lparr>active := (row, col)\<rparr>"

definition on_active :: "(cell \<Rightarrow> cell) \<Rightarrow> plotter \<Rightarrow> plotter" where
  "on_active f p = p\<lparr>cells := (cells p)(active p := f (cells p (active p)))\<rparr>"

definition clear :: "plotter \<Rightarrow> plotter" where
  "clear p = on_active (\<lambda>c. c\<lparr>actors := []\<rparr>) p"

definition add_text :: "string \<Rightarrow> kwargs \<Rightarrow> plotter \<Rightarrow> plotter" where
  "add_text s kw p = on_active (\<lambda>c. c\<lparr>actors := actors c @ [Text s kw]\<rparr>) p"

definition add_mesh :: "geometry \<Rightarrow> kwargs \<Rightarrow> plotter \<Rightarrow> plotter" where
  "add_mesh g kw p = on_active (\<lambda>c. c\<lparr>actors := actors c @ [MeshActor g kw]\<rparr>) p"

definition add_scalar_bar :: "kwargs \<Rightarrow> plotter \<Rightarrow> plotter" where
  "add_scalar_bar kw p = on_active (\<lambda>c. c\<lparr>actors := actors c @ [ScalarBar kw]\<rparr>) p"

definition add_axes :: "kwargs \<Rightarrow> plotter \<Rightarrow> plotter" where
  "add_axes kw p = on_active (\<lambda>c. c\<lparr>actors := actors c @ [Axes kw]\<rparr>) p"

definition set_background :: "string \<Rightarrow> plotter \<Rightarrow> plotter" where
  "set_background col p = on_active (\<lambda>c. c\<lparr>background := col\<rparr>) p"

definition view_isometric :: "plotter \<Rightarrow> plotter" where
  "view_isometric p = on_active (\<lambda>c. c\<lparr>camera := (camera c)\<lparr>view := ''isometric''\<rparr>\<rparr>) p"

definition set_azimuth :: "real \<Rightarrow> plotter \<Rightarrow> plotter" where
  "set_azimuth a p = on_active (\<lambda>c. c\<lparr>camera := (camera c)\<lparr>azimuth := a\<rparr>\<rparr>) p"

definition set_elevation :: "real \<Rightarrow> plotter \<Rightarrow> plotter" where
  "set_elevation e p = on_active (\<lambda>c. c\<lparr>camera := (camera c)\<lparr>elevation := e\<rparr>\<rparr>) p"

definition camera_zoom :: "real \<Rightarrow> plotter \<Rightarrow> plotter" where
  "camera_zoom z p = on_active (\<lambda>c. c\<lparr>camera := (camera c)\<lparr>zoom := z\<rparr>\<rparr>) p"

definition open_movie :: "string \<Rightarrow> kwargs \<Rightarrow> plotter \<Rightarrow> plotter" where
  "open_movie file kw p = p\<lparr>movie := Some (file, kw)\<rparr>"

definition write_frame :: "plotter \<Rightarrow> plotter" where
  "write_frame p = p\<lparr>frames := frames p @ [cells p]\<rparr>"

definition close :: "plotter \<Rightarrow> plotter" where
  "close p = p\<lparr>closed := True\<rparr>"

section \<open>Loading (both scripts)\<close>

text \<open>\<^verbatim>\<open>fname.endswith(suffix)\<close> and POSIX \<^verbatim>\<open>os.path.join(root, fname)\<close>.\<close>

definition endswith :: "string \<Rightarrow> string \<Rightarrow> bool" where
  "endswith s suf = (length suf \<le> length s \<and> drop (length s - length suf) s = suf)"

definition path_join :: "string \<Rightarrow> string \<Rightarrow> string" where
  "path_join a b =
     (if b \<noteq> [] \<and> hd b = CHR ''/'' then b
      else if a = [] \<or> last a = CHR ''/'' then a @ b
      else a @ ''/'' @ b)"

text \<open>
  \<^verbatim>\<open>os.walk("motorBike-VTK")\<close> is an input: the triples \<^verbatim>\<open>(root, dirs, files)\<close> in the order
  the walk yields them.
\<close>

type_synonym walk = "(string \<times> string list \<times> string list) list"

text \<open>
  The inner loop \<^verbatim>\<open>for fname in files\<close> with its \<^verbatim>\<open>try: bike_parts.append(pv.read(part_path))
  except: continue\<close>, and the outer loop over the walk. The same text stands in
  \<^verbatim>\<open>load_data\<close> and in \<^verbatim>\<open>load_motorbike_parts\<close>.
\<close>

fun load_files :: "library \<Rightarrow> string \<Rightarrow> string list \<Rightarrow> dataset list \<Rightarrow> dataset list" where
  "load_files lib rootdir [] bike_parts = bike_parts"
| "load_files lib rootdir (fname # files) bike_parts =
     (if endswith fname ''_500.vtk'' \<and> fname \<noteq> ''motorBike_500.vtk'' then
        (let part_path = path_join rootdir fname in
         case pv_read lib part_path of
           Inr part \<Rightarrow> load_files lib rootdir files (bike_parts @ [part])
         | Inl e \<Rightarrow> load_files lib rootdir files bike_parts)
      else load_files lib rootdir files bike_parts)"

fun load_walk :: "library \<Rightarrow> walk \<Rightarrow> dataset list \<Rightarrow> dataset list" where
  "load_walk lib [] bike_parts = bike_parts"
| "load_walk lib ((rootdir, dirs, files) # rest) bike_parts =
     load_walk lib rest (load_files lib rootdir files bike_parts)"

definition load_motorbike_parts :: "library \<Rightarrow> walk \<Rightarrow> dataset list" where
  "load_motorbike_parts lib w = load_walk lib w []"

definition load_data :: "library \<Rightarrow> walk \<Rightarrow> exn + (dataset \<times> geometry)" where
  "load_data lib w =
     (let volume_file = path_join ''motorBike-VTK'' ''motorBike_500.vtk'' in
      case pv_read lib volume_file of
        Inl e \<Rightarrow> Inl e
      | Inr volume_mesh \<Rightarrow>
          (let bike_parts = load_walk lib w [] in
           Inr (volume_mesh, Combine bike_parts)))"

text \<open>
  The discovered per-part files in the words of the specification: every file of the walk
  whose name ends with the fixed suffix and is not, by exact match, the name of the canonical
  volumetric file.
\<close>

definition spec_part_files :: "walk \<Rightarrow> (string \<times> string) list" where
  "spec_part_files w =
     concat (map (\<lambda>(rootdir, dirs, files).
       map (\<lambda>fname. (rootdir, fname))
         (filter (\<lambda>fname. endswith fname ''_500.vtk'' \<and> fname \<noteq> ''motorBike_500.vtk'') files)) w)"

definition read_part :: "library \<Rightarrow> string \<times> string \<Rightarrow> exn + dataset" where
  "read_part lib rf = pv_read lib (path_join (fst rf) (snd rf))"

text \<open>The datasets of the files that could be read, in order, and the files that could not.\<close>

definition loaded :: "library \<Rightarrow> (string \<times> string) list \<Rightarrow> dataset list" where
  "loaded lib rfs =
     concat (map (\<lambda>rf. case read_part lib rf of Inr part \<Rightarrow> [part] | Inl e \<Rightarrow> []) rfs)"

definition unreadable :: "library \<Rightarrow> (string \<times> string) list \<Rightarrow> (string \<times> string) list" where
  "unreadable lib rfs = filter (\<lambda>rf. isl (read_part lib rf)) rfs"

text \<open>The last component of a path.\<close>

definition basename :: "string \<Rightarrow> string" where
  "basename path = rev (takeWhile (\<lambda>c. c \<noteq> CHR ''/'') (rev path))"

definition n_parts :: "geometry \<Rightarrow> nat" where
  "n_parts g = (case g of Combine ps \<Rightarrow> length ps | Mesh d \<Rightarrow> 1 | Slice d org nrm \<Rightarrow> 1)"

section \<open>The four view composers\<close>

definition setup_velocity_view :: "plotter \<Rightarrow> dataset \<Rightarrow> geometry \<Rightarrow> real \<Rightarrow> plotter" where
  "setup_velocity_view plotter volume_mesh bike_surface angle =
     (let p = subplot 0 0 plotter;
          p = add_text ''Velocity Field (m/s)''
                [(''position'', S ''upper_left''), (''font_size'', I 12), (''color'', S ''black'')] p;
          c = center volume_mesh;
          slice_long = Slice volume_mesh c (0, 1, 0);
          slice_wake = Slice volume_mesh (fst c + 1.0, fst (snd c), snd (snd c)) (1, 0, 0);
          slice_ground = Slice volume_mesh (fst c, fst (snd c), 0.8) (0, 0, 1);
          p = add_mesh slice_long
                [(''scalars'', S ''U''), (''cmap'', S ''jet''), (''opacity'', F 0.9),
                 (''show_scalar_bar'', B False)] p;
          p = add_mesh slice_wake
                [(''scalars'', S ''U''), (''cmap'', S ''coolwarm''), (''opacity'', F 0.6),
                 (''show_scalar_bar'', B False)] p;
          p = add_mesh slice_ground
                [(''scalars'', S ''U''), (''cmap'', S ''plasma''), (''opacity'', F 0.4),
                 (''show_scalar_bar'', B False)] p;
          p = add_mesh bike_surface
                [(''color'', S ''silver''), (''opacity'', F 0.7), (''show_edges'', B True),
                 (''edge_color'', S ''black''), (''line_width'', F 0.2)] p;
          p = add_scalar_bar
                [(''title'', S ''Velocity''), (''position_x'', F 0.85), (''width'', F 0.05),
                 (''height'', F 0.3), (''title_font_size'', I 8), (''label_font_size'', I 7)] p;
          p = set_background ''white'' p;
          p = view_isometric p;
          p = set_azimuth (angle * 0.5) p;
          p = set_elevation 20 p;
          p = camera_zoom 1.2 p
      in p)"

definition setup_pressure_view :: "plotter \<Rightarrow> dataset \<Rightarrow> geometry \<Rightarrow> real \<Rightarrow> plotter" where
  "setup_pressure_view plotter volume_mesh bike_surface angle =
     (let p = subplot 0 1 plotter;
          p = add_text ''Pressure Field (Pa)''
                [(''position'', S ''upper_left''), (''font_size'', I 12), (''color'', S ''black'')] p;
          c = center volume_mesh;
          slice_back = Slice volume_mesh (fst c + 0.5, fst (snd c), snd (snd c)) (1, 0, 0);
          slice_front = Slice volume_mesh (fst c - 0.5, fst (snd c), snd (snd c)) (1, 0, 0);
          p = add_mesh slice_back
                [(''scalars'', S ''p''), (''cmap'', S ''coolwarm''), (''opacity'', F 0.9),
                 (''show_scalar_bar'', B False)] p;
          p = add_mesh slice_front
                [(''scalars'', S ''p''), (''cmap'', S ''RdBu''), (''opacity'', F 0.6),
                 (''show_scalar_bar'', B False)] p;
          p = add_mesh bike_surface
                [(''color'', S ''darkgray''), (''opacity'', F 0.5), (''show_edges'', B True),
                 (''edge_color'', S ''black''), (''line_width'', F 0.3)] p;
          p = add_scalar_bar
                [(''title'', S ''Pressure''), (''position_x'', F 0.85), (''width'', F 0.05),
                 (''height'', F 0.3), (''title_font_size'', I 8), (''label_font_size'', I 7)] p;
          p = set_background ''white'' p;
          p = view_isometric p;
          p = set_azimuth (angle * 0.5) p;
          p = set_elevation 20 p;
          p = camera_zoom 1.2 p
      in p)"

definition setup_mesh_view :: "plotter \<Rightarrow> geometry \<Rightarrow> real \<Rightarrow> plotter" where
  "setup_mesh_view plotter bike_surface angle =
     (let p = subplot 1 0 plotter;
          p = add_text ''Motorbike Geometry''
                [(''position'', S ''upper_left''), (''font_size'', I 12), (''color'', S ''black'')] p;
          p = add_mesh bike_surface
                [(''color'', S ''silver''), (''opacity'', F 0.9), (''show_edges'', B True),
                 (''edge_color'', S ''black''), (''line_width'', F 0.4)] p;
          p = set_background ''white'' p;
          p = view_isometric p;
          p = set_azimuth angle p;
          p = set_elevation 25 p;
          p = camera_zoom 1.3 p
      in p)"

text \<open>
  The seed points \<^verbatim>\<open>[[center[0]-3, y, z] for y in [-1.0, 0.0, 1.0] for z in [1.5, 2.0, 2.5]]\<close>
  and the keyword arguments of the integration call.
\<close>

definition seed_points :: "vec3 \<Rightarrow> vec3 list" where
  "seed_points c = concat (map (\<lambda>y. map (\<lambda>z. (fst c - 3, y, z)) [1.5, 2.0, 2.5]) [-1.0, 0.0, 1.0])"

definition streamline_kwargs :: kwargs where
  "streamline_kwargs =
     [(''vectors'', S ''U''), (''max_steps'', I 100), (''integration_direction'', S ''forward'')]"

definition setup_flow_analysis ::
  "library \<Rightarrow> plotter \<Rightarrow> dataset \<Rightarrow> geometry \<Rightarrow> real \<Rightarrow> plotter" where
  "setup_flow_analysis lib plotter volume_mesh bike_surface angle =
     (let p = subplot 1 1 plotter;
          p = add_text ''Flow Analysis & Wake''
                [(''position'', S ''upper_left''), (''font_size'', I 12), (''color'', S ''black'')] p;
          c = center volume_mesh;
          wake_slice = Slice volume_mesh (fst c + 2.0, fst (snd c), snd (snd c)) (1, 0, 0);
          (p, field_name) =
            (if ''omega'' \<in> set (array_names volume_mesh) then
               (add_mesh wake_slice
                  [(''scalars'', S ''omega''), (''cmap'', S ''turbo''), (''opacity'', F 0.8),
                   (''show_scalar_bar'', B False)] p, ''Turbulence'')
             else if ''k'' \<in> set (array_names volume_mesh) then
               (add_mesh wake_slice
                  [(''scalars'', S ''k''), (''cmap'', S ''hot''), (''opacity'', F 0.8),
                   (''show_scalar_bar'', B False)] p, ''Turbulent Energy'')
             else
               (add_mesh wake_slice
                  [(''scalars'', S ''U''), (''cmap'', S ''viridis''), (''opacity'', F 0.8),
                   (''show_scalar_bar'', B False)] p, ''Velocity''));
          p = (case streamlines_from_source lib volume_mesh (seed_points c) streamline_kwargs of
                 Inr streamlines \<Rightarrow>
                   add_mesh (Mesh streamlines)
                     [(''scalars'', S ''U''), (''cmap'', S ''rainbow''), (''line_width'', I 2),
                      (''opacity'', F 0.9), (''show_scalar_bar'', B False)] p
               | Inl e \<Rightarrow> p);
          p = add_mesh bike_surface
                [(''color'', S ''darkblue''), (''opacity'', F 0.6), (''show_edges'', B True),
                 (''edge_color'', S ''navy''), (''line_width'', F 0.3)] p;
          p = add_scalar_bar
                [(''title'', S field_name), (''position_x'', F 0.85), (''width'', F 0.05),
                 (''height'', F 0.3), (''title_font_size'', I 8), (''label_font_size'', I 7)] p;
          p = set_background ''lightgray'' p;
          p = view_isometric p;
          p = set_azimuth (angle * 0.3) p;
          p = set_elevation 15 p;
          p = camera_zoom 1.0 p
      in p)"

text \<open>
  The composer calls \<^verbatim>\<open>streamlines_from_source\<close> on \<^verbatim>\<open>volume_mesh\<close> itself and reads the
  dataset no more after that call: \<open>setup_flow_analysis\<close> above is what the composer
  leaves in the plotter, and this is what it leaves of the volumetric dataset. The other
  three composers only read \<^verbatim>\<open>center\<close> and request slices.
\<close>

definition flow_analysis_volume :: "library \<Rightarrow> dataset \<Rightarrow> dataset" where
  "flow_analysis_volume lib volume_mesh =
     volume_after_streamlines lib volume_mesh (seed_points (center volume_mesh))
       streamline_kwargs"

section \<open>The frame driver\<close>

text \<open>
  \<^verbatim>\<open>np.linspace(start, stop, num, endpoint=False)\<close>: \<^verbatim>\<open>num\<close> samples
  \<^verbatim>\<open>start + i * step\<close> with \<^verbatim>\<open>step = (stop - start) / num\<close>; the value \<^verbatim>\<open>stop\<close> itself is
  not a sample. The number of samples and their order are the library's; the values are the
  real numbers that the library's doubles round.
\<close>

definition linspace :: "real \<Rightarrow> real \<Rightarrow> nat \<Rightarrow> real list" where
  "linspace start stop num =
     map (\<lambda>i. start + real i * ((stop - start) / real num)) [0..<num]"

text \<open>Python's \<^verbatim>\<open>a % b\<close> on non-negative integers: it raises when \<^verbatim>\<open>b\<close> is zero.\<close>

definition py_mod :: "nat \<Rightarrow> nat \<Rightarrow> exn + nat" where
  "py_mod a b = (if b = 0 then Inl ZeroDivisionError else Inr (a mod b))"

text \<open>
  The format \<^verbatim>\<open>:.0f\<close> rounds to the nearest integer, ties to the even one, and prints
  it in decimal.
\<close>

definition round_half_even :: "real \<Rightarrow> int" where
  "round_half_even x =
     (let f = \<lfloor>x\<rfloor>; r = x - of_int f in
      if r < 1 / 2 then f else if 1 / 2 < r then f + 1 else if even f then f else f + 1)"

fun str_nat :: "nat \<Rightarrow> string" where
  "str_nat n =
     (if n < 10 then [''0123456789'' ! n]
      else str_nat (n div 10) @ [''0123456789'' ! (n mod 10)])"

definition format_0f :: "real \<Rightarrow> string" where
  "format_0f x =
     (let r = round_half_even x in
      if r < 0 then ''-'' @ str_nat (nat (- r)) else str_nat (nat r))"

text \<open>The percentage shown at frame index \<^verbatim>\<open>i\<close>, and the line printed.\<close>

definition progress_percent :: "nat \<Rightarrow> nat \<Rightarrow> real" where
  "progress_percent i total_frames = (real (i + 1) / real total_frames) * 100"

definition progress_message :: "nat \<Rightarrow> nat \<Rightarrow> string" where
  "progress_message i total_frames =
     ''Progress: '' @ format_0f (progress_percent i total_frames) @ ''%''"

text \<open>The test \<^verbatim>\<open>(i + 1) % (total_frames // 10) == 0\<close>.\<close>

definition progress_due :: "nat \<Rightarrow> nat \<Rightarrow> exn + bool" where
  "progress_due i total_frames =
     (case py_mod (i + 1) (total_frames div 10) of
        Inl e \<Rightarrow> Inl e
      | Inr r \<Rightarrow> Inr (r = 0))"

text \<open>
  The local variables of \<^verbatim>\<open>create_animation\<close> that live across the loop, and what was
  printed. \<^verbatim>\<open>volume_mesh\<close> and \<^verbatim>\<open>bike_surface\<close> are never assigned again, but every frame
  hands the same two objects to the composers: \<open>volume\<close> is the volumetric dataset as the
  calls made on it so far have left it.
\<close>

record run_state =
  volume :: dataset
  surface :: geometry
  canvas :: plotter
  printed :: "string list"

text \<open>
  \<^verbatim>\<open>for row in range(2): for col in range(2): plotter.subplot(row, col); plotter.clear()\<close>
\<close>

definition clear_cells :: "plotter \<Rightarrow> plotter" where
  "clear_cells p =
     fold (\<lambda>rc q. clear (subplot (fst rc) (snd rc) q))
       (concat (map (\<lambda>row. map (\<lambda>col. (row, col)) [0..<2]) [0..<2])) p"

text \<open>The four composer calls of one iteration, in the order of the source.\<close>

definition compose_frame :: "library \<Rightarrow> plotter \<Rightarrow> dataset \<Rightarrow> geometry \<Rightarrow> real \<Rightarrow> plotter" where
  "compose_frame lib plotter volume_mesh bike_surface angle =
     (let p = clear_cells plotter;
          p = setup_velocity_view p volume_mesh bike_surface angle;
          p = setup_pressure_view p volume_mesh bike_surface angle;
          p = setup_mesh_view p bike_surface angle;
          p = setup_flow_analysis lib p volume_mesh bike_surface angle
      in p)"

text \<open>
  One iteration of \<^verbatim>\<open>for i, angle in enumerate(angles)\<close>. Nothing in the loop catches the
  exception of the progress test.
\<close>

definition render_frame :: "library \<Rightarrow> nat \<Rightarrow> run_state \<Rightarrow> nat \<times> real \<Rightarrow> exn + run_state" where
  "render_frame lib total_frames st ia =
     (let i = fst ia; angle = snd ia;
          p = compose_frame lib (canvas st) (volume st) (surface st) angle;
          p = write_frame p
      in case progress_due i total_frames of
           Inl e \<Rightarrow> Inl e
         | Inr due \<Rightarrow>
             Inr (st\<lparr>volume := flow_analysis_volume lib (volume st),
                     canvas := p,
                     printed := (if due then printed st @ [progress_message i total_frames]
                                 else printed st)\<rparr>))"

fun run_frames :: "library \<Rightarrow> nat \<Rightarrow> run_state \<Rightarrow> (nat \<times> real) list \<Rightarrow> exn + run_state" where
  "run_frames lib total_frames st [] = Inr st"
| "run_frames lib total_frames st (ia # rest) =
     (case render_frame lib total_frames st ia of
        Inl e \<Rightarrow> Inl e
      | Inr st' \<Rightarrow> run_frames lib total_frames st' rest)"

text \<open>
  \<^verbatim>\<open>create_animation\<close> from its first line to \<^verbatim>\<open>plotter.close()\<close>, with \<^verbatim>\<open>fps\<close> and
  \<^verbatim>\<open>duration\<close> as parameters; the source fixes them to 20 and 10. The two report lines
  printed after the close show the size of the written file, which the operating system
  supplies; they are left out.
\<close>

definition animate :: "library \<Rightarrow> walk \<Rightarrow> nat \<Rightarrow> nat \<Rightarrow> exn + run_state" where
  "animate lib w fps duration =
     (let output_file = ''motorbike_cfd_analysis.mp4'';
          total_frames = fps * duration
      in case load_data lib w of
           Inl e \<Rightarrow> Inl e
         | Inr (volume_mesh, bike_surface) \<Rightarrow>
             (let plotter = Plotter [(''shape'', S ''(2, 2)''), (''off_screen'', B True),
                                     (''window_size'', S ''(1920, 1080)'')];
                  angles = linspace 0 360 total_frames;
                  plotter = open_movie output_file
                              [(''framerate'', I (int fps)), (''quality'', I 9)] plotter;
                  st = \<lparr>volume = volume_mesh, surface = bike_surface, canvas = plotter,
                        printed = []\<rparr>
              in case run_frames lib total_frames st (enumerate 0 angles) of
                   Inl e \<Rightarrow> Inl e
                 | Inr st' \<Rightarrow> Inr (st'\<lparr>canvas := close (canvas st')\<rparr>)))"

definition create_animation :: "library \<Rightarrow> walk \<Rightarrow> exn + run_state" where
  "create_animation lib w = animate lib w 20 10"

text \<open>The angle sequence of the program.\<close>

definition angles_of_run :: "real list" where
  "angles_of_run = linspace 0 360 (20 * 10)"

section \<open>The exploded view\<close>

definition vec_sub :: "vec3 \<Rightarrow> vec3 \<Rightarrow> vec3" where
  "vec_sub a b = (fst a - fst b, fst (snd a) - fst (snd b), snd (snd a) - snd (snd b))"

definition vec_add :: "vec3 \<Rightarrow> vec3 \<Rightarrow> vec3" where
  "vec_add a b = (fst a + fst b, fst (snd a) + fst (snd b), snd (snd a) + snd (snd b))"

definition vec_scale :: "vec3 \<Rightarrow> real \<Rightarrow> vec3" where
  "vec_scale a k = (fst a * k, fst (snd a) * k, snd (snd a) * k)"

text \<open>\<^verbatim>\<open>np.linalg.norm\<close> of a vector of three components.\<close>

definition linalg_norm :: "vec3 \<Rightarrow> real" where
  "linalg_norm a = sqrt ((fst a)\<^sup>2 + (fst (snd a))\<^sup>2 + (snd (snd a))\<^sup>2)"

text \<open>
  Division of an array by a scalar. NumPy does not raise on a zero divisor: the entries
  become NaN or infinite. \<open>None\<close> stands for that outcome.
\<close>

definition np_divide :: "vec3 \<Rightarrow> real \<Rightarrow> vec3 option" where
  "np_divide a k =
     (if k = 0 then None else Some (fst a / k, fst (snd a) / k, snd (snd a) / k))"

text \<open>
  \<^verbatim>\<open>np.mean(all_centers, axis=0)\<close>: the sum of the rows divided by their number; of no row
  at all it is NaN (\<open>None\<close>).
\<close>

definition np_mean :: "vec3 list \<Rightarrow> vec3 option" where
  "np_mean vs = np_divide (fold (\<lambda>v acc. vec_add acc v) vs (0, 0, 0)) (real (length vs))"

text \<open>Lines 90 to 94 of the viewer: the direction in which a part is pushed outwards.\<close>

definition offset_direction :: "vec3 \<Rightarrow> vec3 \<Rightarrow> vec3 option" where
  "offset_direction part_center global_center =
     (let offset_direction = vec_sub part_center global_center in
      if linalg_norm offset_direction > 0 then
        np_divide offset_direction (linalg_norm offset_direction)
      else Some (0, 0, 0))"

definition translate :: "dataset \<Rightarrow> vec3 \<Rightarrow> dataset" where
  "translate d v = d\<lparr>center := vec_add (center d) v, points := map (\<lambda>q. vec_add q v) (points d)\<rparr>"

definition explosion_factor :: real where
  "explosion_factor = 0.3"

definition colors :: "string list" where
  "colors = [''red'', ''blue'', ''green'', ''orange'', ''purple'', ''brown'', ''pink'', ''gray'']"

text \<open>
  The body of \<^verbatim>\<open>for i, part in enumerate(bike_parts)\<close>; it yields \<open>None\<close> when a division
  by zero has produced the vector it translates by.
\<close>

definition explode_part :: "vec3 option \<Rightarrow> plotter \<Rightarrow> nat \<times> dataset \<Rightarrow> plotter option" where
  "explode_part global_center plotter ip =
     (let i = fst ip; part = snd ip in
      case global_center of
        None \<Rightarrow> None
      | Some g \<Rightarrow>
          (case offset_direction (center part) g of
             None \<Rightarrow> None
           | Some dir \<Rightarrow>
               (let exploded_part = translate part (vec_scale dir explosion_factor);
                    color = colors ! (i mod length colors)
                in Some (add_mesh (Mesh exploded_part)
                           [(''color'', S color), (''opacity'', F 0.8), (''show_edges'', B True),
                            (''edge_color'', S ''black''), (''line_width'', F 0.2)] plotter))))"

fun explode_loop :: "vec3 option \<Rightarrow> plotter \<Rightarrow> (nat \<times> dataset) list \<Rightarrow> plotter option" where
  "explode_loop global_center plotter [] = Some plotter"
| "explode_loop global_center plotter (ip # rest) =
     (case explode_part global_center plotter ip of
        None \<Rightarrow> None
      | Some p \<Rightarrow> explode_loop global_center p rest)"

definition exploded_view :: "library \<Rightarrow> walk \<Rightarrow> plotter option" where
  "exploded_view lib w =
     (let bike_parts = load_motorbike_parts lib w;
          all_centers = map center bike_parts;
          global_center = np_mean all_centers;
          plotter = Plotter [(''title'', S ''Motorbike Mesh - Exploded View'')]
      in case explode_loop global_center plotter (enumerate 0 bike_parts) of
           None \<Rightarrow> None
         | Some p \<Rightarrow>
             (let p = set_background ''lightgray'' p;
                  p = add_axes [(''line_width'', I 4)] p;
                  p = view_isometric p;
                  p = set_azimuth 30 p;
                  p = set_elevation 20 p;
                  p = camera_zoom 0.7 p
              in Some p))"

section \<open>Reading what a cell holds\<close>

text \<open>The slices drawn in a cell (origin, normal, keyword arguments), and its scalar bars.\<close>

fun slice_actors :: "actor list \<Rightarrow> (vec3 \<times> vec3 \<times> kwargs) list" where
  "slice_actors [] = []"
| "slice_actors (MeshActor (Slice d org nrm) kw # rest) = (org, nrm, kw) # slice_actors rest"
| "slice_actors (x # rest) = slice_actors rest"

fun scalar_bars :: "actor list \<Rightarrow> kwargs list" where
  "scalar_bars [] = []"
| "scalar_bars (ScalarBar kw # rest) = kw # scalar_bars rest"
| "scalar_bars (x # rest) = scalar_bars rest"

definition slice_colouring :: "cell \<Rightarrow> (kwarg option \<times> kwarg option) list" where
  "slice_colouring c =
     map (\<lambda>okw. (map_of (snd (snd okw)) ''scalars'', map_of (snd (snd okw)) ''cmap''))
       (slice_actors (actors c))"

definition legend_titles :: "cell \<Rightarrow> kwarg option list" where
  "legend_titles c = map (\<lambda>kw. map_of kw ''title'') (scalar_bars (actors c))"

definition slice_planes :: "cell \<Rightarrow> (vec3 \<times> vec3) list" where
  "slice_planes c = map (\<lambda>okw. (fst okw, fst (snd okw))) (slice_actors (actors c))"

section \<open>Concrete inputs\<close>

definition sample_volume :: "string list \<Rightarrow> dataset" where
  "sample_volume names =
     \<lparr>center = (1, 0, 1 / 2), points = [(0, 0, 0), (2, 0, 1)],
      arrays = map (\<lambda>n. (n, [0, 1])) names\<rparr>"

definition sample_part :: "vec3 \<Rightarrow> dataset" where
  "sample_part c = \<lparr>center = c, points = [c], arrays = []\<rparr>"

definition sample_surface :: geometry where
  "sample_surface = Combine [sample_part (0, 0, 0), sample_part (2, 0, 0)]"

text \<open>A library in which one part file cannot be read and no streamline can be integrated.\<close>

definition sample_library :: library where
  "sample_library =
     \<lparr>pv_read = (\<lambda>path.
        if path = ''motorBike-VTK/broken_500.vtk'' then Inl (LibraryError ''cannot read'')
        else if path = ''motorBike-VTK/motorBike_500.vtk'' then Inr (sample_volume [''U'', ''p''])
        else Inr (sample_part (real (length path), 0, 0))),
      streamlines_from_source = (\<lambda>d seeds kw. Inl (LibraryError ''no streamlines'')),
      volume_after_streamlines = (\<lambda>d seeds kw. d)\<rparr>"



definition sample_walk :: walk where
  "sample_walk =
     [(''motorBike-VTK'', [''sub''],
        [''motorBike_500.vtk'', ''frame_500.vtk'', ''broken_500.vtk'', ''notes.txt'']),
      (''motorBike-VTK/sub'', [], [''wheel_500.vtk'', ''motorBike_500.vtk''])]"

definition sample_state :: run_state where
  "sample_state =
     \<lparr>volume = sample_volume [''U'', ''p''], surface = sample_surface, canvas = Plotter [],
      printed = []\<rparr>"

section \<open>Shorthand for the keyword arguments the composers pass\<close>

definition text_kwargs :: kwargs where
  "text_kwargs = [(''position'', S ''upper_left''), (''font_size'', I 12), (''color'', S ''black'')]"

definition slice_kwargs :: "string \<Rightarrow> string \<Rightarrow> real \<Rightarrow> kwargs" where
  "slice_kwargs sc cm op =
     [(''scalars'', S sc), (''cmap'', S cm), (''opacity'', F op), (''show_scalar_bar'', B False)]"

definition surface_kwargs :: "string \<Rightarrow> real \<Rightarrow> string \<Rightarrow> real \<Rightarrow> kwargs" where
  "surface_kwargs col op edge lw =
     [(''color'', S col), (''opacity'', F op), (''show_edges'', B True),
      (''edge_color'', S edge), (''line_width'', F lw)]"

definition bar_kwargs :: "string \<Rightarrow> kwargs" where
  "bar_kwargs title =
     [(''title'', S title), (''position_x'', F 0.85), (''width'', F 0.05),
      (''height'', F 0.3), (''title_font_size'', I 8), (''label_font_size'', I 7)]"

definition streamline_style :: kwargs where
  "streamline_style =
     [(''scalars'', S ''U''), (''cmap'', S ''rainbow''), (''line_width'', I 2),
      (''opacity'', F 0.9), (''show_scalar_bar'', B False)]"

definition shifted :: "vec3 \<Rightarrow> real \<Rightarrow> vec3" where
  "shifted c dx = (fst c + dx, fst (snd c), snd (snd c))"

section \<open>What each composer leaves in the plotter\<close>

lemmas kw_defs = text_kwargs_def slice_kwargs_def surface_kwargs_def bar_kwargs_def
  streamline_style_def shifted_def

lemmas plotter_ops = subplot_def on_active_def clear_def add_text_def add_mesh_def
  add_scalar_bar_def add_axes_def set_background_def view_isometric_def set_azimuth_def
  set_elevation_def camera_zoom_def

lemma cell_all_fields:
  "c\<lparr>actors := xs, background := b, camera := k\<rparr> = \<lparr>actors = xs, background = b, camera = k\<rparr>"
  by (cases c) simp

lemma camera_all_fields:
  "k\<lparr>view := v, azimuth := a, elevation := e, zoom := z\<rparr> =
   \<lparr>view = v, azimuth = a, elevation = e, zoom = z\<rparr>"
  by (cases k) simp

lemma clear_cells_cells:
  "cells (clear_cells p) =
     (\<lambda>rc. if rc \<in> {(0, 0), (0, 1), (1, 0), (1, 1)} then (cells p rc)\<lparr>actors := []\<rparr>
           else cells p rc)"
  by (auto simp add: clear_cells_def plotter_ops upt_conv_Cons fun_eq_iff)

lemma velocity_view_cells:
  "cells (setup_velocity_view p v s a) =
     (cells p)((0, 0) := (cells p (0, 0))
        \<lparr>actors := actors (cells p (0, 0)) @
           [Text ''Velocity Field (m/s)'' text_kwargs,
            MeshActor (Slice v (center v) (0, 1, 0)) (slice_kwargs ''U'' ''jet'' 0.9),
            MeshActor (Slice v (shifted (center v) 1) (1, 0, 0))
              (slice_kwargs ''U'' ''coolwarm'' 0.6),
            MeshActor (Slice v (fst (center v), fst (snd (center v)), 0.8) (0, 0, 1))
              (slice_kwargs ''U'' ''plasma'' 0.4),
            MeshActor s (surface_kwargs ''silver'' 0.7 ''black'' 0.2),
            ScalarBar (bar_kwargs ''Velocity'')],
         background := ''white'',
         camera := \<lparr>view = ''isometric'', azimuth = a * 0.5, elevation = 20, zoom = 1.2\<rparr>\<rparr>)"
  by (simp add: setup_velocity_view_def plotter_ops Let_def camera_all_fields kw_defs)

lemma pressure_view_cells:
  "cells (setup_pressure_view p v s a) =
     (cells p)((0, 1) := (cells p (0, 1))
        \<lparr>actors := actors (cells p (0, 1)) @
           [Text ''Pressure Field (Pa)'' text_kwargs,
            MeshActor (Slice v (shifted (center v) 0.5) (1, 0, 0))
              (slice_kwargs ''p'' ''coolwarm'' 0.9),
            MeshActor (Slice v (shifted (center v) (- 0.5)) (1, 0, 0))
              (slice_kwargs ''p'' ''RdBu'' 0.6),
            MeshActor s (surface_kwargs ''darkgray'' 0.5 ''black'' 0.3),
            ScalarBar (bar_kwargs ''Pressure'')],
         background := ''white'',
         camera := \<lparr>view = ''isometric'', azimuth = a * 0.5, elevation = 20, zoom = 1.2\<rparr>\<rparr>)"
  by (simp add: setup_pressure_view_def plotter_ops Let_def camera_all_fields kw_defs)

lemma mesh_view_cells:
  "cells (setup_mesh_view p s a) =
     (cells p)((1, 0) := (cells p (1, 0))
        \<lparr>actors := actors (cells p (1, 0)) @
           [Text ''Motorbike Geometry'' text_kwargs,
            MeshActor s (surface_kwargs ''silver'' 0.9 ''black'' 0.4)],
         background := ''white'',
         camera := \<lparr>view = ''isometric'', azimuth = a, elevation = 25, zoom = 1.3\<rparr>\<rparr>)"
  by (simp add: setup_mesh_view_def plotter_ops Let_def camera_all_fields kw_defs)

lemma flow_analysis_cells:
  "cells (setup_flow_analysis lib p v s a) =
     (cells p)((1, 1) := (cells p (1, 1))
        \<lparr>actors := actors (cells p (1, 1)) @
           [Text ''Flow Analysis & Wake'' text_kwargs,
            MeshActor (Slice v (shifted (center v) 2) (1, 0, 0))
              (if ''omega'' \<in> set (array_names v) then slice_kwargs ''omega'' ''turbo'' 0.8
               else if ''k'' \<in> set (array_names v) then slice_kwargs ''k'' ''hot'' 0.8
               else slice_kwargs ''U'' ''viridis'' 0.8)] @
           (case streamlines_from_source lib v (seed_points (center v)) streamline_kwargs of
              Inr sl \<Rightarrow> [MeshActor (Mesh sl) streamline_style]
            | Inl e \<Rightarrow> []) @
           [MeshActor s (surface_kwargs ''darkblue'' 0.6 ''navy'' 0.3),
            ScalarBar (bar_kwargs
              (if ''omega'' \<in> set (array_names v) then ''Turbulence''
               else if ''k'' \<in> set (array_names v) then ''Turbulent Energy''
               else ''Velocity''))],
         background := ''lightgray'',
         camera := \<lparr>view = ''isometric'', azimuth = a * 0.3, elevation = 15, zoom = 1.0\<rparr>\<rparr>)"
  by (simp add: setup_flow_analysis_def plotter_ops Let_def camera_all_fields kw_defs
      split: sum.split)

text \<open>
  A composed frame: every field of each of the four cells is set anew, so nothing of the
  canvas before the frame is left in them.
\<close>

lemma compose_frame_cells:
  "cells (compose_frame lib p v s a) =
     (\<lambda>rc.
        if rc = (0, 0) then
          \<lparr>actors =
             [Text ''Velocity Field (m/s)'' text_kwargs,
              MeshActor (Slice v (center v) (0, 1, 0)) (slice_kwargs ''U'' ''jet'' 0.9),
              MeshActor (Slice v (shifted (center v) 1) (1, 0, 0))
                (slice_kwargs ''U'' ''coolwarm'' 0.6),
              MeshActor (Slice v (fst (center v), fst (snd (center v)), 0.8) (0, 0, 1))
                (slice_kwargs ''U'' ''plasma'' 0.4),
              MeshActor s (surface_kwargs ''silver'' 0.7 ''black'' 0.2),
              ScalarBar (bar_kwargs ''Velocity'')],
           background = ''white'',
           camera = \<lparr>view = ''isometric'', azimuth = a * 0.5, elevation = 20, zoom = 1.2\<rparr>\<rparr>
        else if rc = (0, 1) then
          \<lparr>actors =
             [Text ''Pressure Field (Pa)'' text_kwargs,
              MeshActor (Slice v (shifted (center v) 0.5) (1, 0, 0))
                (slice_kwargs ''p'' ''coolwarm'' 0.9),
              MeshActor (Slice v (shifted (center v) (- 0.5)) (1, 0, 0))
                (slice_kwargs ''p'' ''RdBu'' 0.6),
              MeshActor s (surface_kwargs ''darkgray'' 0.5 ''black'' 0.3),
              ScalarBar (bar_kwargs ''Pressure'')],
           background = ''white'',
           camera = \<lparr>view = ''isometric'', azimuth = a * 0.5, elevation = 20, zoom = 1.2\<rparr>\<rparr>
        else if rc = (1, 0) then
          \<lparr>actors =
             [Text ''Motorbike Geometry'' text_kwargs,
              MeshActor s (surface_kwargs ''silver'' 0.9 ''black'' 0.4)],
           background = ''white'',
           camera = \<lparr>view = ''isometric'', azimuth = a, elevation = 25, zoom = 1.3\<rparr>\<rparr>
        else if rc = (1, 1) then
          \<lparr>actors =
             [Text ''Flow Analysis & Wake'' text_kwargs,
              MeshActor (Slice v (shifted (center v) 2) (1, 0, 0))
                (if ''omega'' \<in> set (array_names v) then slice_kwargs ''omega'' ''turbo'' 0.8
                 else if ''k'' \<in> set (array_names v) then slice_kwargs ''k'' ''hot'' 0.8
                 else slice_kwargs ''U'' ''viridis'' 0.8)] @
             (case streamlines_from_source lib v (seed_points (center v)) streamline_kwargs of
                Inr sl \<Rightarrow> [MeshActor (Mesh sl) streamline_style]
              | Inl e \<Rightarrow> []) @
             [MeshActor s (surface_kwargs ''darkblue'' 0.6 ''navy'' 0.3),
              ScalarBar (bar_kwargs
                (if ''omega'' \<in> set (array_names v) then ''Turbulence''
                 else if ''k'' \<in> set (array_names v) then ''Turbulent Energy''
                 else ''Velocity''))],
           background = ''lightgray'',
           camera = \<lparr>view = ''isometric'', azimuth = a * 0.3, elevation = 15, zoom = 1.0\<rparr>\<rparr>
        else cells p rc)"
  unfolding compose_frame_def Let_def flow_analysis_cells mesh_view_cells pressure_view_cells
    velocity_view_cells clear_cells_cells
  by (rule ext) (simp add: cell_all_fields)

text \<open>No composer writes a frame.\<close>

lemmas to_on_active = clear_def add_text_def add_mesh_def
  add_scalar_bar_def add_axes_def set_background_def view_isometric_def set_azimuth_def
  set_elevation_def camera_zoom_def

lemma frames_on_active: "frames (on_active f p) = frames p"
  by (simp add: on_active_def)

lemma frames_subplot: "frames (subplot r c p) = frames p"
  by (simp add: subplot_def)

lemma frames_clear_cells: "frames (clear_cells p) = frames p"
  by (simp add: clear_cells_def upt_conv_Cons clear_def frames_on_active frames_subplot)

lemma frames_velocity: "frames (setup_velocity_view p v s a) = frames p"
  by (simp add: setup_velocity_view_def Let_def to_on_active frames_on_active frames_subplot)

lemma frames_pressure: "frames (setup_pressure_view p v s a) = frames p"
  by (simp add: setup_pressure_view_def Let_def to_on_active frames_on_active frames_subplot)

lemma frames_mesh: "frames (setup_mesh_view p s a) = frames p"
  by (simp add: setup_mesh_view_def Let_def to_on_active frames_on_active frames_subplot)

lemma frames_flow: "frames (setup_flow_analysis lib p v s a) = frames p"
  by (simp add: setup_flow_analysis_def Let_def to_on_active frames_on_active frames_subplot
      split: sum.split)

lemma compose_frame_frames: "frames (compose_frame lib p v s a) = frames p"
  by (simp add: compose_frame_def Let_def frames_flow frames_mesh frames_pressure
      frames_velocity frames_clear_cells)

section \<open>The loop over the frames\<close>

lemma progress_due_ok:
  "0 < tf div 10 \<Longrightarrow> progress_due i tf = Inr ((i + 1) mod (tf div 10) = 0)"
  by (simp add: progress_due_def py_mod_def)

lemma progress_due_fail:
  "tf div 10 = 0 \<Longrightarrow> progress_due i tf = Inl ZeroDivisionError"
  by (simp add: progress_due_def py_mod_def)

lemma render_frame_ok:
  "0 < tf div 10 \<Longrightarrow>
   render_frame lib tf st ia =
     Inr (st\<lparr>volume := flow_analysis_volume lib (volume st),
             canvas := write_frame (compose_frame lib (canvas st) (volume st) (surface st) (snd ia)),
             printed := (if (fst ia + 1) mod (tf div 10) = 0
                         then printed st @ [progress_message (fst ia) tf] else printed st)\<rparr>)"
  by (simp add: render_frame_def Let_def progress_due_ok)

lemma render_frame_fail:
  "tf div 10 = 0 \<Longrightarrow> render_frame lib tf st ia = Inl ZeroDivisionError"
  by (simp add: render_frame_def Let_def progress_due_fail)

lemma run_frames_fail:
  "tf div 10 = 0 \<Longrightarrow> xs \<noteq> [] \<Longrightarrow> run_frames lib tf st xs = Inl ZeroDivisionError"
  by (cases xs) (simp_all add: render_frame_fail)

lemma run_frames_ok:
  "0 < tf div 10 \<Longrightarrow> \<exists>st'. run_frames lib tf st xs = Inr st'"
  by (induction xs arbitrary: st) (simp_all add: render_frame_ok)

text \<open>What one iteration that returns has done to the state.\<close>

lemma render_frame_Inr:
  assumes "render_frame lib tf st ia = Inr st1"
  shows "surface st1 = surface st"
    and "volume st1 = flow_analysis_volume lib (volume st)"
    and "frames (canvas st1) =
      frames (canvas st) @ [cells (compose_frame lib (canvas st) (volume st) (surface st) (snd ia))]"
    and "printed st1 =
      printed st @ (if (fst ia + 1) mod (tf div 10) = 0 then [progress_message (fst ia) tf] else [])"
proof -
  have pos: "0 < tf div 10"
  proof (rule ccontr)
    assume "\<not> 0 < tf div 10"
    then have "tf div 10 = 0" by simp
    with assms show False by (simp add: render_frame_fail)
  qed
  from assms have st1: "st1 =
      st\<lparr>volume := flow_analysis_volume lib (volume st),
         canvas := write_frame (compose_frame lib (canvas st) (volume st) (surface st) (snd ia)),
         printed := (if (fst ia + 1) mod (tf div 10) = 0
                     then printed st @ [progress_message (fst ia) tf] else printed st)\<rparr>"
    by (simp add: render_frame_ok [OF pos])
  show "surface st1 = surface st" by (simp add: st1)
  show "volume st1 = flow_analysis_volume lib (volume st)" by (simp add: st1)
  show "frames (canvas st1) =
      frames (canvas st) @ [cells (compose_frame lib (canvas st) (volume st) (surface st) (snd ia))]"
    by (simp add: st1 write_frame_def compose_frame_frames)
  show "printed st1 =
      printed st @ (if (fst ia + 1) mod (tf div 10) = 0 then [progress_message (fst ia) tf] else [])"
    by (simp add: st1)
qed

lemma run_frames_Cons_Inr:
  assumes "run_frames lib tf st (ia # xs) = Inr st'"
  obtains st1 where "render_frame lib tf st ia = Inr st1" and "run_frames lib tf st1 xs = Inr st'"
  using assms by (cases "render_frame lib tf st ia") simp_all



lemma run_frames_printed:
  "run_frames lib tf st xs = Inr st' \<Longrightarrow>
   printed st' = printed st @
     map (\<lambda>ia. progress_message (fst ia) tf)
       (filter (\<lambda>ia. (fst ia + 1) mod (tf div 10) = 0) xs)"
proof (induction xs arbitrary: st)
  case Nil
  then show ?case by simp
next
  case (Cons ia xs)
  from Cons.prems obtain st1 where one: "render_frame lib tf st ia = Inr st1"
    and more: "run_frames lib tf st1 xs = Inr st'"
    by (rule run_frames_Cons_Inr)
  from Cons.IH [OF more] render_frame_Inr(4) [OF one] show ?case by simp
qed

text \<open>The geometry cell of the frames a run writes.\<close>

lemma run_frames_geometry_cells:
  "run_frames lib tf st xs = Inr st' \<Longrightarrow>
   map (\<lambda>f. f (1, 0)) (frames (canvas st')) =
     map (\<lambda>f. f (1, 0)) (frames (canvas st)) @
     map (\<lambda>ia. cells (compose_frame lib0 q v0 (surface st) (snd ia)) (1, 0)) xs"
proof (induction xs arbitrary: st)
  case Nil
  then show ?case by simp
next
  case (Cons ia xs)
  from Cons.prems obtain st1 where one: "render_frame lib tf st ia = Inr st1"
    and more: "run_frames lib tf st1 xs = Inr st'"
    by (rule run_frames_Cons_Inr)
  have "cells (compose_frame lib (canvas st) (volume st) (surface st) (snd ia)) (1, 0) =
      cells (compose_frame lib0 q v0 (surface st) (snd ia)) (1, 0)"
    by (simp add: compose_frame_cells)
  with Cons.IH [OF more] render_frame_Inr(1) [OF one] render_frame_Inr(3) [OF one]
  show ?case by simp
qed



section \<open>The angle sequence and the progress lines\<close>

lemma length_linspace: "length (linspace a b n) = n"
  by (simp add: linspace_def)

lemma length_angles_of_run: "length angles_of_run = 200"
  by (simp add: angles_of_run_def length_linspace)

lemma filter_due: "filter (\<lambda>i. (i + 1) mod 20 = 0) [0..<200] =
    [19, 39, 59, 79, 99, 119, 139, 159, 179, 199]"
  by code_simp

lemma messages: "map (\<lambda>i. progress_message i 200) [19, 39, 59, 79, 99, 119, 139, 159, 179, 199] =
  [''Progress: 10%'', ''Progress: 20%'', ''Progress: 30%'', ''Progress: 40%'',
   ''Progress: 50%'', ''Progress: 60%'', ''Progress: 70%'', ''Progress: 80%'',
   ''Progress: 90%'', ''Progress: 100%'']"
  by (simp add: progress_message_def format_0f_def progress_percent_def round_half_even_def Let_def)

lemma printed_over_enumerate:
  "map (\<lambda>ia. f (fst ia)) (filter (\<lambda>ia. P (fst ia)) (enumerate n xs)) =
   map f (filter P [n..<n + length xs])"
proof (induction xs arbitrary: n)
  case Nil
  show ?case by simp
next
  case (Cons x xs)
  have "[n..<n + length (x # xs)] = n # [Suc n..<Suc n + length xs]"
    by (subst upt_rec) simp
  with Cons.IH [of "Suc n"] show ?case by simp
qed

lemma run_printed_200:
  "\<exists>st'. run_frames lib 200 st (enumerate 0 angles_of_run) = Inr st' \<and>
     printed st' = printed st @
       [''Progress: 10%'', ''Progress: 20%'', ''Progress: 30%'', ''Progress: 40%'',
        ''Progress: 50%'', ''Progress: 60%'', ''Progress: 70%'', ''Progress: 80%'',
        ''Progress: 90%'', ''Progress: 100%'']"
proof -
  obtain st' where r: "run_frames lib 200 st (enumerate 0 angles_of_run) = Inr st'"
    using run_frames_ok [of 200 lib st "enumerate 0 angles_of_run"] by auto
  have "printed st' = printed st @
     map (\<lambda>ia. progress_message (fst ia) 200)
       (filter (\<lambda>ia. (fst ia + 1) mod (200 div 10) = 0) (enumerate 0 angles_of_run))"
    by (rule run_frames_printed [OF r])
  also have "map (\<lambda>ia. progress_message (fst ia) 200)
       (filter (\<lambda>ia. (fst ia + 1) mod (200 div 10) = 0) (enumerate 0 angles_of_run)) =
     map (\<lambda>i. progress_message i 200)
       (filter (\<lambda>i. (i + 1) mod (200 div 10) = 0) [0..<0 + length angles_of_run])"
    by (rule printed_over_enumerate)
  also have "\<dots> = map (\<lambda>i. progress_message i 200) [19, 39, 59, 79, 99, 119, 139, 159, 179, 199]"
    using filter_due by (simp add: length_angles_of_run)
  finally have "printed st' = printed st @
      map (\<lambda>i. progress_message i 200) [19, 39, 59, 79, 99, 119, 139, 159, 179, 199]" .
  then have "printed st' = printed st @
       [''Progress: 10%'', ''Progress: 20%'', ''Progress: 30%'', ''Progress: 40%'',
        ''Progress: 50%'', ''Progress: 60%'', ''Progress: 70%'', ''Progress: 80%'',
        ''Progress: 90%'', ''Progress: 100%'']"
    by (simp only: messages)
  with r show ?thesis by blast
qed

lemma create_animation_printed:
  assumes "load_data lib w = Inr vs"
  shows "\<exists>st'. create_animation lib w = Inr st' \<and>
     printed st' =
       [''Progress: 10%'', ''Progress: 20%'', ''Progress: 30%'', ''Progress: 40%'',
        ''Progress: 50%'', ''Progress: 60%'', ''Progress: 70%'', ''Progress: 80%'',
        ''Progress: 90%'', ''Progress: 100%'']"
proof -
  obtain v s where vs: "vs = (v, s)" by (cases vs)
  let ?st = "\<lparr>volume = v, surface = s,
      canvas = open_movie ''motorbike_cfd_analysis.mp4''
        [(''framerate'', I (int 20)), (''quality'', I 9)]
        (Plotter [(''shape'', S ''(2, 2)''), (''off_screen'', B True),
                  (''window_size'', S ''(1920, 1080)'')]),
      printed = []\<rparr>"
  from run_printed_200 [of lib ?st] obtain st' where
    r: "run_frames lib 200 ?st (enumerate 0 angles_of_run) = Inr st'"
    and p: "printed st' = printed ?st @
       [''Progress: 10%'', ''Progress: 20%'', ''Progress: 30%'', ''Progress: 40%'',
        ''Progress: 50%'', ''Progress: 60%'', ''Progress: 70%'', ''Progress: 80%'',
        ''Progress: 90%'', ''Progress: 100%'']"
    by blast
  have "create_animation lib w = Inr (st'\<lparr>canvas := close (canvas st')\<rparr>)"
    using assms r by (simp add: create_animation_def animate_def vs Let_def angles_of_run_def)
  with p show ?thesis by simp
qed

section \<open>The loader\<close>

lemma loaded_append: "loaded lib (xs @ ys) = loaded lib xs @ loaded lib ys"
  by (simp add: loaded_def)

lemma load_files_eq:
  "load_files lib rootdir files acc =
     acc @ loaded lib (map (\<lambda>fname. (rootdir, fname))
       (filter (\<lambda>fname. endswith fname ''_500.vtk'' \<and> fname \<noteq> ''motorBike_500.vtk'') files))"
  by (induction files arbitrary: acc)
    (auto simp add: loaded_def read_part_def Let_def split: sum.splits)

lemma load_walk_eq: "load_walk lib w acc = acc @ loaded lib (spec_part_files w)"
proof (induction w arbitrary: acc)
  case Nil
  show ?case by (simp add: spec_part_files_def loaded_def)
next
  case (Cons t w)
  obtain rootdir dirs files where t: "t = (rootdir, dirs, files)" by (cases t)
  have "spec_part_files (t # w) =
      map (\<lambda>fname. (rootdir, fname))
        (filter (\<lambda>fname. endswith fname ''_500.vtk'' \<and> fname \<noteq> ''motorBike_500.vtk'') files) @
      spec_part_files w"
    by (simp add: spec_part_files_def t)
  then show ?case
    by (simp add: t Cons.IH load_files_eq loaded_append)
qed

lemma loaded_count: "length (loaded lib rfs) + length (unreadable lib rfs) = length rfs"
  by (induction rfs) (auto simp add: loaded_def unreadable_def split: sum.splits)

lemma spec_part_files_names:
  "rf \<in> set (spec_part_files w) \<Longrightarrow>
     endswith (snd rf) ''_500.vtk'' \<and> snd rf \<noteq> ''motorBike_500.vtk''"
  by (auto simp add: spec_part_files_def)

lemma takeWhile_stop:
  "\<forall>c\<in>set xs. P c \<Longrightarrow> \<not> P z \<Longrightarrow> takeWhile P (xs @ z # ys) = xs"
  by (induction xs) simp_all

lemma basename_path_join:
  assumes "CHR ''/'' \<notin> set f"
  shows "basename (path_join a f) = f"
proof -
  from assms have all: "\<forall>c\<in>set (rev f). c \<noteq> CHR ''/''" by auto
  then have whole: "takeWhile (\<lambda>c. c \<noteq> CHR ''/'') (rev f) = rev f"
    by (simp add: takeWhile_eq_all_conv)
  have stop: "takeWhile (\<lambda>c. c \<noteq> CHR ''/'') (rev f @ CHR ''/'' # ys) = rev f" for ys
    using all by (rule takeWhile_stop) simp
  from assms have nohd: "\<not> (f \<noteq> [] \<and> hd f = CHR ''/'')" by (cases f) auto
  show ?thesis
  proof (cases a rule: rev_cases)
    case Nil
    with nohd show ?thesis
      by (simp add: basename_def path_join_def whole)
  next
    case (snoc ys y)
    with nohd show ?thesis
      by (simp add: basename_def path_join_def stop whole)
  qed
qed

section \<open>The exploded view: directions\<close>

lemma linalg_norm_nonneg: "0 \<le> linalg_norm d"
  by (simp add: linalg_norm_def)

lemma linalg_norm_zero_iff: "linalg_norm d = 0 \<longleftrightarrow> d = (0, 0, 0)"
proof -
  obtain x y z where d: "d = (x, y, z)" by (cases d) auto
  have "x\<^sup>2 + y\<^sup>2 + z\<^sup>2 = 0 \<longleftrightarrow> x = 0 \<and> y = 0 \<and> z = 0"
    by (metis add_nonneg_eq_0_iff add_nonneg_nonneg power2_eq_iff_nonneg sum_power2_eq_zero_iff
        zero_le_power2 zero_power2)
  then show ?thesis by (simp add: linalg_norm_def d)
qed

lemma offset_direction_of_centre: "offset_direction g g = Some (0, 0, 0)"
  by (simp add: offset_direction_def vec_sub_def linalg_norm_def Let_def)

lemma offset_direction_cases:
  "offset_direction c g =
     (if linalg_norm (vec_sub c g) = 0 then Some (0, 0, 0)
      else Some (fst (vec_sub c g) / linalg_norm (vec_sub c g),
                 fst (snd (vec_sub c g)) / linalg_norm (vec_sub c g),
                 snd (snd (vec_sub c g)) / linalg_norm (vec_sub c g)))"
  using linalg_norm_nonneg [of "vec_sub c g"]
  by (auto simp add: offset_direction_def np_divide_def Let_def)

lemma unit_direction:
  assumes "linalg_norm d \<noteq> 0"
  shows "linalg_norm (fst d / linalg_norm d, fst (snd d) / linalg_norm d,
      snd (snd d) / linalg_norm d) = 1"
proof -
  obtain x y z where d: "d = (x, y, z)" by (cases d) auto
  let ?s = "x\<^sup>2 + y\<^sup>2 + z\<^sup>2"
  have nonneg: "0 \<le> ?s" by simp
  from assms have pos: "?s \<noteq> 0" by (simp add: linalg_norm_def d)
  have sq: "(sqrt ?s)\<^sup>2 = ?s" using nonneg by simp
  have "(x / sqrt ?s)\<^sup>2 + (y / sqrt ?s)\<^sup>2 + (z / sqrt ?s)\<^sup>2 =
      x\<^sup>2 / ?s + y\<^sup>2 / ?s + z\<^sup>2 / ?s"
    by (simp only: power_divide sq)
  also have "\<dots> = ?s / ?s"
    by (simp only: add_divide_distrib)
  also have "\<dots> = 1" using pos by simp
  finally show ?thesis by (simp add: linalg_norm_def d)
qed

lemma translate_by_nothing: "translate part (vec_scale (0, 0, 0) k) = part"
  by (simp add: translate_def vec_scale_def vec_add_def)

lemma explode_part_some:
  "\<exists>q. explode_part (Some g) p ip = Some q"
  by (simp add: explode_part_def Let_def offset_direction_cases)

lemma explode_loop_some:
  "\<exists>q. explode_loop (Some g) p xs = Some q"
proof (induction xs arbitrary: p)
  case Nil
  show ?case by simp
next
  case (Cons ip xs)
  obtain q where "explode_part (Some g) p ip = Some q"
    using explode_part_some by blast
  with Cons.IH [of q] show ?case by simp
qed

lemma np_mean_none: "np_mean vs = None \<longleftrightarrow> vs = []"
  by (simp add: np_mean_def np_divide_def)

lemma exploded_view_some: "\<exists>q. exploded_view lib w = Some q"
proof (cases "load_motorbike_parts lib w = []")
  case True
  then show ?thesis by (simp add: exploded_view_def Let_def)
next
  case False
  then obtain g where g: "np_mean (map center (load_motorbike_parts lib w)) = Some g"
    using np_mean_none [of "map center (load_motorbike_parts lib w)"] by auto
  obtain q where "explode_loop (Some g)
      (Plotter [(''title'', S ''Motorbike Mesh - Exploded View'')])
      (enumerate 0 (load_motorbike_parts lib w)) = Some q"
    using explode_loop_some by blast
  with g show ?thesis by (simp add: exploded_view_def Let_def)
qed

section \<open>The claims\<close>

text \<open>
  C3, as the code has it. The composers set the azimuth of their cell to 0.5, 0.5, 1.0 and
  0.3 times the frame angle for the velocity, pressure, geometry and flow-analysis cell, in
  that order: the geometry cell is the one with the full angle, and for a frame angle other
  than zero it is the only one.
\<close>

theorem azimuth_multiplier_of_each_cell:
  "azimuth (camera (cells (setup_velocity_view p v s a) (0, 0))) = 0.5 * a \<and>
   azimuth (camera (cells (setup_pressure_view p v s a) (0, 1))) = 0.5 * a \<and>
   azimuth (camera (cells (setup_mesh_view p s a) (1, 0))) = 1.0 * a \<and>
   azimuth (camera (cells (setup_flow_analysis lib p v s a) (1, 1))) = 0.3 * a \<and>
   (a \<noteq> 0 \<longrightarrow>
      azimuth (camera (cells (setup_velocity_view p v s a) (0, 0))) \<noteq> a \<and>
      azimuth (camera (cells (setup_pressure_view p v s a) (0, 1))) \<noteq> a \<and>
      azimuth (camera (cells (setup_flow_analysis lib p v s a) (1, 1))) \<noteq> a)"
  by (simp add: velocity_view_cells pressure_view_cells mesh_view_cells flow_analysis_cells)

theorem azimuth_multiplier_of_each_cell_witness:
  "azimuth (camera (cells (setup_velocity_view (Plotter []) (sample_volume [''U'', ''p''])
      sample_surface 90) (0, 0))) = 45 \<and>
   azimuth (camera (cells (setup_pressure_view (Plotter []) (sample_volume [''U'', ''p''])
      sample_surface 90) (0, 1))) = 45 \<and>
   azimuth (camera (cells (setup_mesh_view (Plotter []) sample_surface 90) (1, 0))) = 90 \<and>
   azimuth (camera (cells (setup_flow_analysis sample_library (Plotter [])
      (sample_volume [''U'', ''p'']) sample_surface 90) (1, 1))) = 27 \<and>
   azimuth (camera (cells (setup_velocity_view (Plotter []) (sample_volume [''U'', ''p''])
      sample_surface 90) (0, 0))) \<noteq> 90"
  using azimuth_multiplier_of_each_cell [of "Plotter []" "sample_volume [''U'', ''p'']"
      sample_surface 90 sample_library]
  by simp

theorem azimuth_multipliers_in_claimed_order_counterexample:
  "\<not> (azimuth (camera (cells (setup_velocity_view (Plotter []) (sample_volume [''U'', ''p''])
          sample_surface 90) (0, 0))) = 1.0 * 90 \<and>
       azimuth (camera (cells (setup_pressure_view (Plotter []) (sample_volume [''U'', ''p''])
          sample_surface 90) (0, 1))) = 0.5 * 90 \<and>
       azimuth (camera (cells (setup_mesh_view (Plotter []) sample_surface 90) (1, 0))) = 0.5 * 90 \<and>
       azimuth (camera (cells (setup_flow_analysis sample_library (Plotter [])
          (sample_volume [''U'', ''p'']) sample_surface 90) (1, 1))) = 0.3 * 90)"
  by (simp add: velocity_view_cells)




text \<open>
  C10. What a frame leaves in the geometry cell is fixed by the combined surface and the
  angle: another volumetric field, another library behaviour or another canvas before the
  frame changes nothing in it, in one frame and in every frame a run writes.
\<close>

theorem geometry_cell_ignores_volume:
  "cells (compose_frame lib p v s a) (1, 0) = cells (compose_frame lib' p' v' s a) (1, 0) \<and>
   cells (compose_frame lib p v s a) (1, 0) =
     \<lparr>actors =
        [Text ''Motorbike Geometry''
           [(''position'', S ''upper_left''), (''font_size'', I 12), (''color'', S ''black'')],
         MeshActor s
           [(''color'', S ''silver''), (''opacity'', F 0.9), (''show_edges'', B True),
            (''edge_color'', S ''black''), (''line_width'', F 0.4)]],
      background = ''white'',
      camera = \<lparr>view = ''isometric'', azimuth = a, elevation = 25, zoom = 1.3\<rparr>\<rparr> \<and>
   (run_frames lib tf st xs = Inr st1 \<and> run_frames lib' tf st' xs = Inr st1' \<and>
    surface st = surface st' \<and> frames (canvas st) = frames (canvas st') \<longrightarrow>
      map (\<lambda>f. f (1, 0)) (frames (canvas st1)) = map (\<lambda>f. f (1, 0)) (frames (canvas st1')))"
proof -
  have one: "cells (compose_frame lib p v s a) (1, 0) = cells (compose_frame lib' p' v' s a) (1, 0)"
    for lib p v lib' p' v' a
    by (simp add: compose_frame_cells)
  have content: "cells (compose_frame lib p v s a) (1, 0) =
     \<lparr>actors =
        [Text ''Motorbike Geometry''
           [(''position'', S ''upper_left''), (''font_size'', I 12), (''color'', S ''black'')],
         MeshActor s
           [(''color'', S ''silver''), (''opacity'', F 0.9), (''show_edges'', B True),
            (''edge_color'', S ''black''), (''line_width'', F 0.4)]],
      background = ''white'',
      camera = \<lparr>view = ''isometric'', azimuth = a, elevation = 25, zoom = 1.3\<rparr>\<rparr>"
    by (simp add: compose_frame_cells kw_defs)
  have runs: "map (\<lambda>f. f (1, 0)) (frames (canvas st1)) = map (\<lambda>f. f (1, 0)) (frames (canvas st1'))"
    if r1: "run_frames lib tf st xs = Inr st1" and r2: "run_frames lib' tf st' xs = Inr st1'"
      and s: "surface st = surface st'" and f: "frames (canvas st) = frames (canvas st')"
  proof -
    from run_frames_geometry_cells [OF r1, of lib "Plotter []" "volume st"]
      run_frames_geometry_cells [OF r2, of lib "Plotter []" "volume st"] f s
    show ?thesis by simp
  qed
  from one content runs show ?thesis by blast
qed

theorem geometry_cell_ignores_volume_witness:
  "cells (compose_frame sample_library (Plotter []) (sample_volume [''U'', ''p''])
      sample_surface 90) (1, 0) =
   cells (compose_frame sample_library (Plotter []) (sample_volume []) sample_surface 90) (1, 0) \<and>
   (\<exists>st1 st1'.
      run_frames sample_library 200 sample_state [(0, 0), (1, 90)] = Inr st1 \<and>
      run_frames sample_library 200 (sample_state\<lparr>volume := sample_volume []\<rparr>)
        [(0, 0), (1, 90)] = Inr st1' \<and>
      map (\<lambda>f. f (1, 0)) (frames (canvas st1)) = map (\<lambda>f. f (1, 0)) (frames (canvas st1')))"
proof -
  obtain st1 where r1: "run_frames sample_library 200 sample_state [(0, 0), (1, 90)] = Inr st1"
    using run_frames_ok [of 200 sample_library sample_state "[(0, 0), (1, 90)]"] by auto
  obtain st1' where r2: "run_frames sample_library 200
      (sample_state\<lparr>volume := sample_volume []\<rparr>) [(0, 0), (1, 90)] = Inr st1'"
    using run_frames_ok [of 200 sample_library "sample_state\<lparr>volume := sample_volume []\<rparr>"
        "[(0, 0), (1, 90)]"] by auto
  note inst = geometry_cell_ignores_volume [of sample_library "Plotter []"
      "sample_volume [''U'', ''p'']" sample_surface 90 sample_library "Plotter []"
      "sample_volume []" 200 sample_state "[(0, 0), (1, 90)]" st1
      "sample_state\<lparr>volume := sample_volume []\<rparr>" st1']
  from inst r1 r2 have
    "map (\<lambda>f. f (1, 0)) (frames (canvas st1)) = map (\<lambda>f. f (1, 0)) (frames (canvas st1'))"
    by simp
  with inst r1 r2 show ?thesis by blast
qed

text \<open>
  C2. In every composed frame the wake slice of the flow-analysis cell is coloured by
  \<open>omega\<close> on \<open>turbo\<close> with the legend \<open>Turbulence\<close> when the field has an array
  \<open>omega\<close>; otherwise by \<open>k\<close> on \<open>hot\<close> with the legend \<open>Turbulent Energy\<close> when it has
  an array \<open>k\<close>; otherwise by \<open>U\<close> on \<open>viridis\<close> with the legend \<open>Velocity\<close>. A field
  with the arrays \<open>U\<close> and \<open>p\<close> only gets the last.
\<close>

theorem flow_attribute_by_priority:
  "(''omega'' \<in> set (array_names v) \<longrightarrow>
      slice_colouring (cells (compose_frame lib p v (Combine ps) a) (1, 1)) =
        [(Some (S ''omega''), Some (S ''turbo''))] \<and>
      legend_titles (cells (compose_frame lib p v (Combine ps) a) (1, 1)) =
        [Some (S ''Turbulence'')]) \<and>
   (''omega'' \<notin> set (array_names v) \<and> ''k'' \<in> set (array_names v) \<longrightarrow>
      slice_colouring (cells (compose_frame lib p v (Combine ps) a) (1, 1)) =
        [(Some (S ''k''), Some (S ''hot''))] \<and>
      legend_titles (cells (compose_frame lib p v (Combine ps) a) (1, 1)) =
        [Some (S ''Turbulent Energy'')]) \<and>
   (''omega'' \<notin> set (array_names v) \<and> ''k'' \<notin> set (array_names v) \<longrightarrow>
      slice_colouring (cells (compose_frame lib p v (Combine ps) a) (1, 1)) =
        [(Some (S ''U''), Some (S ''viridis''))] \<and>
      legend_titles (cells (compose_frame lib p v (Combine ps) a) (1, 1)) =
        [Some (S ''Velocity'')]) \<and>
   (set (array_names v) = {''U'', ''p''} \<longrightarrow>
      slice_colouring (cells (compose_frame lib p v (Combine ps) a) (1, 1)) =
        [(Some (S ''U''), Some (S ''viridis''))] \<and>
      legend_titles (cells (compose_frame lib p v (Combine ps) a) (1, 1)) =
        [Some (S ''Velocity'')])"
  by (simp add: compose_frame_cells slice_colouring_def legend_titles_def slice_kwargs_def
      bar_kwargs_def split: sum.split)

theorem flow_attribute_by_priority_witness:
  "array_names (sample_volume [''p'', ''k'', ''omega'', ''U'']) = [''p'', ''k'', ''omega'', ''U''] \<and>
   slice_colouring (cells (compose_frame sample_library (Plotter [])
       (sample_volume [''p'', ''k'', ''omega'', ''U'']) sample_surface 90) (1, 1)) =
     [(Some (S ''omega''), Some (S ''turbo''))] \<and>
   legend_titles (cells (compose_frame sample_library (Plotter [])
       (sample_volume [''p'', ''k'', ''omega'', ''U'']) sample_surface 90) (1, 1)) =
     [Some (S ''Turbulence'')] \<and>
   legend_titles (cells (compose_frame sample_library (Plotter [])
       (sample_volume [''p'', ''k'', ''U'']) sample_surface 90) (1, 1)) =
     [Some (S ''Turbulent Energy'')] \<and>
   slice_colouring (cells (compose_frame sample_library (Plotter [])
       (sample_volume [''U'', ''p'']) sample_surface 90) (1, 1)) =
     [(Some (S ''U''), Some (S ''viridis''))] \<and>
   legend_titles (cells (compose_frame sample_library (Plotter [])
       (sample_volume [''U'', ''p'']) sample_surface 90) (1, 1)) =
     [Some (S ''Velocity'')]"
proof -
  have n: "array_names (sample_volume ns) = ns" for ns
    by (simp add: array_names_def sample_volume_def comp_def)
  note i1 = flow_attribute_by_priority [of "sample_volume [''p'', ''k'', ''omega'', ''U'']"
      sample_library "Plotter []" "[sample_part (0, 0, 0), sample_part (2, 0, 0)]" 90]
  note i2 = flow_attribute_by_priority [of "sample_volume [''p'', ''k'', ''U'']"
      sample_library "Plotter []" "[sample_part (0, 0, 0), sample_part (2, 0, 0)]" 90]
  note i3 = flow_attribute_by_priority [of "sample_volume [''U'', ''p'']"
      sample_library "Plotter []" "[sample_part (0, 0, 0), sample_part (2, 0, 0)]" 90]
  from i1 i2 i3 show ?thesis
    unfolding sample_surface_def n by simp
qed

text \<open>
  C4. When the streamline integration raises, whatever the exception, the iteration of the
  loop still returns normally and writes its frame, and the flow-analysis cell of that frame
  holds the title, the wake slice, the surface and one scalar bar: four actors, no
  streamlines.
\<close>

theorem streamline_failure_is_swallowed:
  assumes fails: "streamlines_from_source lib (volume st) (seed_points (center (volume st)))
      streamline_kwargs = Inl e"
    and surf: "surface st = Combine ps"
    and enough: "10 \<le> tf"
  shows "\<exists>st'. render_frame lib tf st (i, a) = Inr st' \<and>
      frames (canvas st') = frames (canvas st) @ [cells (canvas st')] \<and>
      slice_planes (cells (canvas st') (1, 1)) =
        [((fst (center (volume st)) + 2.0, fst (snd (center (volume st))),
           snd (snd (center (volume st)))), (1, 0, 0))] \<and>
      MeshActor (Combine ps)
        [(''color'', S ''darkblue''), (''opacity'', F 0.6), (''show_edges'', B True),
         (''edge_color'', S ''navy''), (''line_width'', F 0.3)]
        \<in> set (actors (cells (canvas st') (1, 1))) \<and>
      length (scalar_bars (actors (cells (canvas st') (1, 1)))) = 1 \<and>
      length (actors (cells (canvas st') (1, 1))) = 4 \<and>
      actors (cells (setup_flow_analysis lib p (volume st) (Combine ps) a) (1, 1)) =
        actors (cells p (1, 1)) @ actors (cells (canvas st') (1, 1))"
proof -
  from enough have pos: "0 < tf div 10" by simp
  let ?q = "write_frame (compose_frame lib (canvas st) (volume st) (surface st) a)"
  let ?st' = "st\<lparr>volume := flow_analysis_volume lib (volume st), canvas := ?q,
      printed := (if (i + 1) mod (tf div 10) = 0
                  then printed st @ [progress_message i tf] else printed st)\<rparr>"
  have r: "render_frame lib tf st (i, a) = Inr ?st'"
    using render_frame_ok [OF pos, of lib st "(i, a)"] by simp
  have cq: "cells ?q = cells (compose_frame lib (canvas st) (volume st) (Combine ps) a)"
    by (simp add: write_frame_def surf)
  have fr: "frames (canvas ?st') = frames (canvas st) @ [cells (canvas ?st')]"
    by (simp add: write_frame_def compose_frame_frames)
  have planes: "slice_planes (cells ?q (1, 1)) =
        [((fst (center (volume st)) + 2.0, fst (snd (center (volume st))),
           snd (snd (center (volume st)))), (1, 0, 0))]"
    unfolding cq by (simp add: compose_frame_cells slice_planes_def shifted_def fails)
  have surface_drawn: "MeshActor (Combine ps)
        [(''color'', S ''darkblue''), (''opacity'', F 0.6), (''show_edges'', B True),
         (''edge_color'', S ''navy''), (''line_width'', F 0.3)]
        \<in> set (actors (cells ?q (1, 1)))"
    unfolding cq by (simp add: compose_frame_cells surface_kwargs_def fails)
  have bar: "length (scalar_bars (actors (cells ?q (1, 1)))) = 1"
    unfolding cq by (simp add: compose_frame_cells fails)
  have four: "length (actors (cells ?q (1, 1))) = 4"
    unfolding cq by (simp add: compose_frame_cells fails)
  have composer: "actors (cells (setup_flow_analysis lib p (volume st) (Combine ps) a) (1, 1)) =
        actors (cells p (1, 1)) @ actors (cells ?q (1, 1))"
    unfolding cq by (simp add: compose_frame_cells flow_analysis_cells fails)
  show ?thesis
    apply (rule exI [of _ ?st'])
    using r fr planes surface_drawn bar four composer by simp
qed

theorem streamline_failure_is_swallowed_witness:
  "streamlines_from_source sample_library (volume sample_state)
      (seed_points (center (volume sample_state))) streamline_kwargs =
     Inl (LibraryError ''no streamlines'') \<and>
   surface sample_state = Combine [sample_part (0, 0, 0), sample_part (2, 0, 0)] \<and>
   (10::nat) \<le> 200 \<and>
   (\<exists>st'. render_frame sample_library 200 sample_state (0, 0) = Inr st' \<and>
      length (frames (canvas st')) = 1 \<and>
      slice_planes (cells (canvas st') (1, 1)) = [((3, 0, 1 / 2), (1, 0, 0))] \<and>
      length (scalar_bars (actors (cells (canvas st') (1, 1)))) = 1 \<and>
      length (actors (cells (canvas st') (1, 1))) = 4)"
proof -
  have f: "streamlines_from_source sample_library (volume sample_state)
      (seed_points (center (volume sample_state))) streamline_kwargs =
     Inl (LibraryError ''no streamlines'')"
    by (simp add: sample_library_def)
  have s: "surface sample_state = Combine [sample_part (0, 0, 0), sample_part (2, 0, 0)]"
    by (simp add: sample_state_def sample_surface_def)
  have e: "(10::nat) \<le> 200" by simp
  have c: "center (volume sample_state) = (1, 0, 1 / 2)"
    by (simp add: sample_state_def sample_volume_def)
  have fr: "frames (canvas sample_state) = []"
    by (simp add: sample_state_def Plotter_def)
  from streamline_failure_is_swallowed [OF f s e, of 0 0 "Plotter []"]
  obtain st' where "render_frame sample_library 200 sample_state (0, 0) = Inr st'"
    and "frames (canvas st') = frames (canvas sample_state) @ [cells (canvas st')]"
    and "slice_planes (cells (canvas st') (1, 1)) =
        [((fst (center (volume sample_state)) + 2.0, fst (snd (center (volume sample_state))),
           snd (snd (center (volume sample_state)))), (1, 0, 0))]"
    and "length (scalar_bars (actors (cells (canvas st') (1, 1)))) = 1"
    and "length (actors (cells (canvas st') (1, 1))) = 4"
    by blast
  then have "render_frame sample_library 200 sample_state (0, 0) = Inr st' \<and>
      length (frames (canvas st')) = 1 \<and>
      slice_planes (cells (canvas st') (1, 1)) = [((3, 0, 1 / 2), (1, 0, 0))] \<and>
      length (scalar_bars (actors (cells (canvas st') (1, 1)))) = 1 \<and>
      length (actors (cells (canvas st') (1, 1))) = 4"
    by (simp add: c fr)
  with f s e show ?thesis by blast
qed

text \<open>
  C6. With 20 * 10 = 200 frames the progress test holds at frame index \<open>i\<close> exactly when
  \<open>i + 1\<close> is a multiple of 200 div 10 = 20: at the frames 20, 40, ..., 200 counted from
  one, ten times. The percentages are 10, 20, ..., 100, strictly increasing and ending at
  100, and the loop, and with it \<^verbatim>\<open>create_animation\<close>, prints the ten lines
  \<^verbatim>\<open>Progress: 10%\<close> to \<^verbatim>\<open>Progress: 100%\<close> in this order.
\<close>

theorem progress_lines_of_the_run:
  "(20::nat) * 10 = 200 \<and> (200::nat) div 10 = 20 \<and>
   (\<forall>i<200. progress_due i (20 * 10) = Inr (Suc i mod 20 = 0)) \<and>
   map Suc (filter (\<lambda>i. progress_due i (20 * 10) = Inr True) [0..<20 * 10]) =
     [20, 40, 60, 80, 100, 120, 140, 160, 180, 200] \<and>
   map (\<lambda>i. progress_percent i (20 * 10))
       (filter (\<lambda>i. progress_due i (20 * 10) = Inr True) [0..<20 * 10]) =
     [10, 20, 30, 40, 50, 60, 70, 80, 90, 100] \<and>
   sorted_wrt (<) (map (\<lambda>i. progress_percent i (20 * 10))
       (filter (\<lambda>i. progress_due i (20 * 10) = Inr True) [0..<20 * 10])) \<and>
   last (map (\<lambda>i. progress_percent i (20 * 10))
       (filter (\<lambda>i. progress_due i (20 * 10) = Inr True) [0..<20 * 10])) = 100 \<and>
   (\<exists>st'. run_frames lib (20 * 10) st (enumerate 0 angles_of_run) = Inr st' \<and>
      printed st' = printed st @
        [''Progress: 10%'', ''Progress: 20%'', ''Progress: 30%'', ''Progress: 40%'',
         ''Progress: 50%'', ''Progress: 60%'', ''Progress: 70%'', ''Progress: 80%'',
         ''Progress: 90%'', ''Progress: 100%'']) \<and>
   (load_data lib w = Inr vs \<longrightarrow>
      (\<exists>st'. create_animation lib w = Inr st' \<and>
         printed st' =
           [''Progress: 10%'', ''Progress: 20%'', ''Progress: 30%'', ''Progress: 40%'',
            ''Progress: 50%'', ''Progress: 60%'', ''Progress: 70%'', ''Progress: 80%'',
            ''Progress: 90%'', ''Progress: 100%'']))"
proof -
  have due200: "progress_due i 200 = Inr (Suc i mod 20 = 0)" for i
    using progress_due_ok [of 200 i] by simp
  then have due: "progress_due i (20 * 10) = Inr (Suc i mod 20 = 0)" for i
    by simp
  have "(\<lambda>i. progress_due i (20 * 10) = Inr True) = (\<lambda>i. (i + 1) mod 20 = 0)"
    by (rule ext) (simp add: due200)
  then have fired: "filter (\<lambda>i. progress_due i (20 * 10) = Inr True) [0..<20 * 10] =
      [19, 39, 59, 79, 99, 119, 139, 159, 179, 199]"
    using filter_due by simp
  have pct: "map (\<lambda>i. progress_percent i (20 * 10)) [19, 39, 59, 79, 99, 119, 139, 159, 179, 199] =
      [10, 20, 30, 40, 50, 60, 70, 80, 90, 100]"
    by (simp add: progress_percent_def)
  have run: "\<exists>st'. run_frames lib (20 * 10) st (enumerate 0 angles_of_run) = Inr st' \<and>
      printed st' = printed st @
        [''Progress: 10%'', ''Progress: 20%'', ''Progress: 30%'', ''Progress: 40%'',
         ''Progress: 50%'', ''Progress: 60%'', ''Progress: 70%'', ''Progress: 80%'',
         ''Progress: 90%'', ''Progress: 100%'']"
    using run_printed_200 [of lib st] by simp
  have whole: "load_data lib w = Inr vs \<longrightarrow>
      (\<exists>st'. create_animation lib w = Inr st' \<and>
         printed st' =
           [''Progress: 10%'', ''Progress: 20%'', ''Progress: 30%'', ''Progress: 40%'',
            ''Progress: 50%'', ''Progress: 60%'', ''Progress: 70%'', ''Progress: 80%'',
            ''Progress: 90%'', ''Progress: 100%''])"
    using create_animation_printed [of lib w vs] by blast
  show ?thesis
    unfolding fired pct using due run whole by simp
qed

theorem progress_lines_of_the_run_witness:
  "progress_due 19 (20 * 10) = Inr True \<and> progress_due 20 (20 * 10) = Inr False \<and>
   progress_due 199 (20 * 10) = Inr True \<and>
   load_data sample_library sample_walk =
     Inr (sample_volume [''U'', ''p''],
          Combine [sample_part (27, 0, 0), sample_part (31, 0, 0)]) \<and>
   (\<exists>st'. create_animation sample_library sample_walk = Inr st' \<and>
      printed st' =
        [''Progress: 10%'', ''Progress: 20%'', ''Progress: 30%'', ''Progress: 40%'',
         ''Progress: 50%'', ''Progress: 60%'', ''Progress: 70%'', ''Progress: 80%'',
         ''Progress: 90%'', ''Progress: 100%''])"
proof -
  have l: "load_data sample_library sample_walk =
     Inr (sample_volume [''U'', ''p''],
          Combine [sample_part (27, 0, 0), sample_part (31, 0, 0)])"
    by (simp add: load_data_def path_join_def sample_library_def sample_walk_def endswith_def
        Let_def)
  note inst = progress_lines_of_the_run [of sample_library sample_state sample_walk
      "(sample_volume [''U'', ''p''], Combine [sample_part (27, 0, 0), sample_part (31, 0, 0)])"]
  from inst have due: "\<forall>i<200. progress_due i (20 * 10) = Inr (Suc i mod 20 = 0)" by blast
  from inst l have run: "\<exists>st'. create_animation sample_library sample_walk = Inr st' \<and>
      printed st' =
        [''Progress: 10%'', ''Progress: 20%'', ''Progress: 30%'', ''Progress: 40%'',
         ''Progress: 50%'', ''Progress: 60%'', ''Progress: 70%'', ''Progress: 80%'',
         ''Progress: 90%'', ''Progress: 100%'']" by blast
  have "progress_due 19 (20 * 10) = Inr True" "progress_due 20 (20 * 10) = Inr False"
    "progress_due 199 (20 * 10) = Inr True"
    using due [rule_format, of 19] due [rule_format, of 20] due [rule_format, of 199]
    by simp_all
  with l run show ?thesis by blast
qed

text \<open>
  C7. The progress test takes the frame number modulo \<open>total_frames div 10\<close>. Below ten
  frames the divisor is 0, the test raises \<open>ZeroDivisionError\<close>, and nothing catches it: the
  iteration, the loop over a non-empty angle sequence and the whole animation end with it.
  From ten frames on the divisor is positive, the test yields a truth value, and the loop
  returns normally; the program's own 200 frames are of that kind.
\<close>

theorem progress_divisor_zero_below_ten_frames:
  "(tf < 10 \<longrightarrow>
      tf div 10 = 0 \<and>
      py_mod (i + 1) (tf div 10) = Inl ZeroDivisionError \<and>
      progress_due i tf = Inl ZeroDivisionError \<and>
      render_frame lib tf st (i, a) = Inl ZeroDivisionError) \<and>
   (0 < tf \<and> tf < 10 \<longrightarrow>
      run_frames lib tf st (enumerate 0 (linspace 0 360 tf)) = Inl ZeroDivisionError) \<and>
   (0 < fps * duration \<and> fps * duration < 10 \<and> load_data lib w = Inr vs \<longrightarrow>
      animate lib w fps duration = Inl ZeroDivisionError) \<and>
   (10 \<le> tf \<longrightarrow>
      0 < tf div 10 \<and>
      py_mod (i + 1) (tf div 10) = Inr ((i + 1) mod (tf div 10)) \<and>
      progress_due i tf = Inr ((i + 1) mod (tf div 10) = 0) \<and>
      (\<exists>st'. render_frame lib tf st (i, a) = Inr st') \<and>
      (\<exists>st'. run_frames lib tf st xs = Inr st')) \<and>
   (10::nat) \<le> 20 * 10 \<and>
   (load_data lib w = Inr vs \<longrightarrow> (\<exists>st'. create_animation lib w = Inr st'))"
proof -
  have small: "tf div 10 = 0 \<and>
      py_mod (i + 1) (tf div 10) = Inl ZeroDivisionError \<and>
      progress_due i tf = Inl ZeroDivisionError \<and>
      render_frame lib tf st (i, a) = Inl ZeroDivisionError" if "tf < 10"
    using that by (simp add: py_mod_def progress_due_fail render_frame_fail)
  have run_small: "run_frames lib tf st (enumerate 0 (linspace 0 360 tf)) = Inl ZeroDivisionError"
    if "0 < tf \<and> tf < 10"
  proof -
    from that have "length (enumerate 0 (linspace 0 360 tf)) \<noteq> 0"
      by (simp add: length_linspace)
    then have "enumerate 0 (linspace 0 360 tf) \<noteq> []" by fastforce
    moreover from that have "tf div 10 = 0" by simp
    ultimately show ?thesis by (rule run_frames_fail [rotated])
  qed
  have whole_small: "animate lib w fps duration = Inl ZeroDivisionError"
    if "0 < fps * duration \<and> fps * duration < 10 \<and> load_data lib w = Inr vs"
  proof -
    obtain v s where vs: "vs = (v, s)" by (cases vs)
    from that have "length (enumerate 0 (linspace 0 360 (fps * duration))) \<noteq> 0"
      by (simp add: length_linspace)
    then have ne: "enumerate 0 (linspace 0 360 (fps * duration)) \<noteq> []" by fastforce
    from that have z: "(fps * duration) div 10 = 0" by simp
    have "run_frames lib (fps * duration) st0 (enumerate 0 (linspace 0 360 (fps * duration))) =
        Inl ZeroDivisionError" for st0
      using z ne by (rule run_frames_fail)
    with that show ?thesis by (simp add: animate_def Let_def vs)
  qed
  have big: "0 < tf div 10 \<and>
      py_mod (i + 1) (tf div 10) = Inr ((i + 1) mod (tf div 10)) \<and>
      progress_due i tf = Inr ((i + 1) mod (tf div 10) = 0) \<and>
      (\<exists>st'. render_frame lib tf st (i, a) = Inr st') \<and>
      (\<exists>st'. run_frames lib tf st xs = Inr st')" if "10 \<le> tf"
  proof -
    from that have pos: "0 < tf div 10" by simp
    then show ?thesis
      using run_frames_ok [OF pos, of lib st xs]
      by (simp add: py_mod_def progress_due_ok render_frame_ok)
  qed
  have whole: "\<exists>st'. create_animation lib w = Inr st'" if "load_data lib w = Inr vs"
    using create_animation_printed [OF that] by blast
  from small run_small whole_small big whole show ?thesis by simp
qed

theorem progress_divisor_zero_below_ten_frames_witness:
  "(9::nat) div 10 = 0 \<and>
   progress_due 0 9 = Inl ZeroDivisionError \<and>
   render_frame sample_library 9 sample_state (0, 0) = Inl ZeroDivisionError \<and>
   run_frames sample_library 9 sample_state (enumerate 0 (linspace 0 360 9)) =
     Inl ZeroDivisionError \<and>
   animate sample_library sample_walk 3 3 = Inl ZeroDivisionError \<and>
   progress_due 0 10 = Inr True \<and>
   (\<exists>st'. render_frame sample_library 10 sample_state (0, 0) = Inr st') \<and>
   (\<exists>st'. create_animation sample_library sample_walk = Inr st')"
proof -
  have l: "load_data sample_library sample_walk =
     Inr (sample_volume [''U'', ''p''],
          Combine [sample_part (27, 0, 0), sample_part (31, 0, 0)])"
    by (simp add: load_data_def path_join_def sample_library_def sample_walk_def endswith_def
        Let_def)
  note i9 = progress_divisor_zero_below_ten_frames [of 9 0 sample_library sample_state 0 3 3
      sample_walk "(sample_volume [''U'', ''p''],
          Combine [sample_part (27, 0, 0), sample_part (31, 0, 0)])" "[]"]
  note i10 = progress_divisor_zero_below_ten_frames [of 10 0 sample_library sample_state 0 3 3
      sample_walk "(sample_volume [''U'', ''p''],
          Combine [sample_part (27, 0, 0), sample_part (31, 0, 0)])" "[]"]
  from i9 l have a: "(9::nat) div 10 = 0 \<and>
   progress_due 0 9 = Inl ZeroDivisionError \<and>
   render_frame sample_library 9 sample_state (0, 0) = Inl ZeroDivisionError \<and>
   run_frames sample_library 9 sample_state (enumerate 0 (linspace 0 360 9)) =
     Inl ZeroDivisionError \<and>
   animate sample_library sample_walk 3 3 = Inl ZeroDivisionError \<and>
   (\<exists>st'. create_animation sample_library sample_walk = Inr st')"
    by simp
  from i10 have b: "progress_due 0 10 = Inr True \<and>
   (\<exists>st'. render_frame sample_library 10 sample_state (0, 0) = Inr st')"
    by simp
  from a b show ?thesis by blast
qed

text \<open>
  C5. The parts the loader returns are the datasets of the discovered per-part files that
  could be read, in the order of the walk: their number is the number of discovered files
  less the number of unreadable ones, and never more than the number discovered. No
  discovered per-part file bears the name of the canonical volumetric file, in whatever
  directory, and for file names without a slash, as a directory listing gives them, none
  is read from the path of the canonical file. The combined surface of \<^verbatim>\<open>load_data\<close> is
  built from the same parts.
\<close>

theorem parts_are_the_readable_part_files:
  "load_motorbike_parts lib w = loaded lib (spec_part_files w) \<and>
   length (load_motorbike_parts lib w) =
     length (spec_part_files w) - length (unreadable lib (spec_part_files w)) \<and>
   length (load_motorbike_parts lib w) \<le> length (spec_part_files w) \<and>
   (\<forall>rootdir. (rootdir, ''motorBike_500.vtk'') \<notin> set (spec_part_files w)) \<and>
   (\<forall>rf\<in>set (spec_part_files w).
      CHR ''/'' \<notin> set (snd rf) \<longrightarrow>
      path_join (fst rf) (snd rf) \<noteq> path_join ''motorBike-VTK'' ''motorBike_500.vtk'') \<and>
   (\<forall>v s. load_data lib w = Inr (v, s) \<longrightarrow>
      s = Combine (loaded lib (spec_part_files w)) \<and>
      n_parts s = length (spec_part_files w) - length (unreadable lib (spec_part_files w)) \<and>
      n_parts s \<le> length (spec_part_files w))"
proof -
  have parts: "load_motorbike_parts lib w = loaded lib (spec_part_files w)"
    using load_walk_eq [of lib w "[]"] by (simp add: load_motorbike_parts_def)
  have count: "length (loaded lib (spec_part_files w)) =
      length (spec_part_files w) - length (unreadable lib (spec_part_files w))"
    using loaded_count [of lib "spec_part_files w"] by arith
  have bound: "length (loaded lib (spec_part_files w)) \<le> length (spec_part_files w)"
    using loaded_count [of lib "spec_part_files w"] by arith
  have canon: "(rootdir, ''motorBike_500.vtk'') \<notin> set (spec_part_files w)" for rootdir
    using spec_part_files_names [of "(rootdir, ''motorBike_500.vtk'')" w] by auto
  have path: "path_join (fst rf) (snd rf) \<noteq> path_join ''motorBike-VTK'' ''motorBike_500.vtk''"
    if "rf \<in> set (spec_part_files w)" and "CHR ''/'' \<notin> set (snd rf)" for rf
  proof
    assume eq: "path_join (fst rf) (snd rf) = path_join ''motorBike-VTK'' ''motorBike_500.vtk''"
    have "basename (path_join (fst rf) (snd rf)) = snd rf"
      using that(2) by (rule basename_path_join)
    moreover have "basename (path_join ''motorBike-VTK'' ''motorBike_500.vtk'') = ''motorBike_500.vtk''"
      by (rule basename_path_join) simp
    ultimately have "snd rf = ''motorBike_500.vtk''" using eq by simp
    with spec_part_files_names [OF that(1)] show False by simp
  qed
  have data: "s = Combine (loaded lib (spec_part_files w))"
    if "load_data lib w = Inr (v, s)" for v s
    using that load_walk_eq [of lib w "[]"]
    by (simp add: load_data_def Let_def split: sum.splits)
  have data_count: "\<forall>v s. load_data lib w = Inr (v, s) \<longrightarrow>
      s = Combine (loaded lib (spec_part_files w)) \<and>
      n_parts s = length (spec_part_files w) - length (unreadable lib (spec_part_files w)) \<and>
      n_parts s \<le> length (spec_part_files w)"
    using data count bound by (auto simp add: n_parts_def)
  show ?thesis
    unfolding parts using count bound canon path data_count by blast
qed

theorem parts_are_the_readable_part_files_witness:
  "spec_part_files sample_walk =
     [(''motorBike-VTK'', ''frame_500.vtk''), (''motorBike-VTK'', ''broken_500.vtk''),
      (''motorBike-VTK/sub'', ''wheel_500.vtk'')] \<and>
   unreadable sample_library (spec_part_files sample_walk) =
     [(''motorBike-VTK'', ''broken_500.vtk'')] \<and>
   load_motorbike_parts sample_library sample_walk =
     [sample_part (27, 0, 0), sample_part (31, 0, 0)] \<and>
   length (load_motorbike_parts sample_library sample_walk) = 3 - 1 \<and>
   load_data sample_library sample_walk =
     Inr (sample_volume [''U'', ''p''], Combine [sample_part (27, 0, 0), sample_part (31, 0, 0)]) \<and>
   n_parts (Combine [sample_part (27, 0, 0), sample_part (31, 0, 0)]) = 2 \<and>
   path_join ''motorBike-VTK/sub'' ''wheel_500.vtk'' \<noteq>
     path_join ''motorBike-VTK'' ''motorBike_500.vtk''"
proof -
  have files: "spec_part_files sample_walk =
     [(''motorBike-VTK'', ''frame_500.vtk''), (''motorBike-VTK'', ''broken_500.vtk''),
      (''motorBike-VTK/sub'', ''wheel_500.vtk'')]"
    by (simp add: spec_part_files_def sample_walk_def endswith_def)
  have bad: "unreadable sample_library (spec_part_files sample_walk) =
     [(''motorBike-VTK'', ''broken_500.vtk'')]"
    unfolding files
    by (simp add: unreadable_def read_part_def sample_library_def path_join_def)
  have good: "loaded sample_library (spec_part_files sample_walk) =
     [sample_part (27, 0, 0), sample_part (31, 0, 0)]"
    unfolding files
    by (simp add: loaded_def read_part_def sample_library_def path_join_def)
  have l: "load_data sample_library sample_walk =
     Inr (sample_volume [''U'', ''p''], Combine [sample_part (27, 0, 0), sample_part (31, 0, 0)])"
    by (simp add: load_data_def path_join_def sample_library_def sample_walk_def endswith_def
        Let_def)
  note inst = parts_are_the_readable_part_files [of sample_library sample_walk]
  from inst have p: "load_motorbike_parts sample_library sample_walk =
      loaded sample_library (spec_part_files sample_walk)" by (rule conjunct1)
  from inst have n: "length (load_motorbike_parts sample_library sample_walk) =
     length (spec_part_files sample_walk) -
     length (unreadable sample_library (spec_part_files sample_walk))" by blast
  from inst have paths: "\<forall>rf\<in>set (spec_part_files sample_walk).
      CHR ''/'' \<notin> set (snd rf) \<longrightarrow>
      path_join (fst rf) (snd rf) \<noteq> path_join ''motorBike-VTK'' ''motorBike_500.vtk''" by blast
  from inst l have np: "n_parts (Combine [sample_part (27, 0, 0), sample_part (31, 0, 0)]) =
     length (spec_part_files sample_walk) -
     length (unreadable sample_library (spec_part_files sample_walk))" by blast
  have wheel: "path_join ''motorBike-VTK/sub'' ''wheel_500.vtk'' \<noteq>
     path_join ''motorBike-VTK'' ''motorBike_500.vtk''"
    using paths [rule_format, of "(''motorBike-VTK/sub'', ''wheel_500.vtk'')"]
    by (simp add: files)
  from p good have p': "load_motorbike_parts sample_library sample_walk =
     [sample_part (27, 0, 0), sample_part (31, 0, 0)]" by simp
  from n have n': "length (load_motorbike_parts sample_library sample_walk) = 3 - 1"
    by (simp add: files bad [unfolded files])
  from np have np': "n_parts (Combine [sample_part (27, 0, 0), sample_part (31, 0, 0)]) = 2"
    by (simp add: files bad [unfolded files])
  from files bad p' n' l np' wheel show ?thesis by blast
qed

text \<open>
  C9. The direction in which the exploded view pushes a part is always defined: a part
  whose centre is the global centre has an offset of norm 0, gets the zero vector and is
  translated by nothing, so it is drawn where it stands; any other part is divided by a
  norm that is not zero and gets a unit vector. For every set of part files the view is
  built without a division by zero.
\<close>

theorem offset_direction_is_total:
  "(\<exists>d. offset_direction c g = Some d) \<and>
   (c = g \<longrightarrow> linalg_norm (vec_sub c g) = 0) \<and>
   (linalg_norm (vec_sub c g) = 0 \<longrightarrow> offset_direction c g = Some (0, 0, 0)) \<and>
   translate part (vec_scale (0, 0, 0) explosion_factor) = part \<and>
   (center part = g \<longrightarrow>
      explode_part (Some g) p (i, part) =
        Some (add_mesh (Mesh part)
          [(''color'', S (colors ! (i mod length colors))), (''opacity'', F 0.8),
           (''show_edges'', B True), (''edge_color'', S ''black''), (''line_width'', F 0.2)] p)) \<and>
   (linalg_norm (vec_sub c g) \<noteq> 0 \<longrightarrow>
      offset_direction c g = np_divide (vec_sub c g) (linalg_norm (vec_sub c g)) \<and>
      (\<exists>d. offset_direction c g = Some d \<and> linalg_norm d = 1)) \<and>
   (\<exists>q. explode_part (Some g) p (i, part) = Some q) \<and>
   (\<exists>q. exploded_view lib w = Some q)"
proof -
  have total: "\<exists>d. offset_direction c g = Some d"
    by (simp add: offset_direction_cases)
  have same: "c = g \<longrightarrow> linalg_norm (vec_sub c g) = 0"
    by (simp add: linalg_norm_def vec_sub_def)
  have zero: "linalg_norm (vec_sub c g) = 0 \<longrightarrow> offset_direction c g = Some (0, 0, 0)"
    by (simp add: offset_direction_cases)
  have still: "center part = g \<longrightarrow>
      explode_part (Some g) p (i, part) =
        Some (add_mesh (Mesh part)
          [(''color'', S (colors ! (i mod length colors))), (''opacity'', F 0.8),
           (''show_edges'', B True), (''edge_color'', S ''black''), (''line_width'', F 0.2)] p)"
    by (simp add: explode_part_def offset_direction_of_centre translate_by_nothing Let_def)
  have unit: "linalg_norm (vec_sub c g) \<noteq> 0 \<longrightarrow>
      offset_direction c g = np_divide (vec_sub c g) (linalg_norm (vec_sub c g)) \<and>
      (\<exists>d. offset_direction c g = Some d \<and> linalg_norm d = 1)"
    by (simp add: offset_direction_cases np_divide_def unit_direction)
  from total same zero still unit translate_by_nothing [of part explosion_factor]
    explode_part_some [of g p "(i, part)"] exploded_view_some [of lib w]
  show ?thesis by blast
qed

theorem offset_direction_is_total_witness:
  "linalg_norm (vec_sub (1, 2, 3) (1, 2, 3)) = 0 \<and>
   offset_direction (1, 2, 3) (1, 2, 3) = Some (0, 0, 0) \<and>
   center (sample_part (1, 2, 3)) = (1, 2, 3) \<and>
   explode_part (Some (1, 2, 3)) (Plotter []) (9, sample_part (1, 2, 3)) =
     Some (add_mesh (Mesh (sample_part (1, 2, 3)))
       [(''color'', S ''blue''), (''opacity'', F 0.8), (''show_edges'', B True),
        (''edge_color'', S ''black''), (''line_width'', F 0.2)] (Plotter [])) \<and>
   linalg_norm (vec_sub (4, 6, 3) (1, 2, 3)) = 5 \<and>
   offset_direction (4, 6, 3) (1, 2, 3) = Some (3 / 5, 4 / 5, 0) \<and>
   (\<exists>q. exploded_view sample_library sample_walk = Some q)"
proof -
  have five: "linalg_norm (vec_sub (4, 6, 3) (1, 2, 3)) = 5"
  proof -
    have "sqrt ((5::real)\<^sup>2) = 5" by simp
    then show ?thesis by (simp add: linalg_norm_def vec_sub_def)
  qed
  have cen: "center (sample_part (1, 2, 3)) = (1, 2, 3)"
    by (simp add: sample_part_def)
  note i0 = offset_direction_is_total [of "(1, 2, 3)" "(1, 2, 3)" "sample_part (1, 2, 3)"
      "Plotter []" 9 sample_library sample_walk]
  note i1 = offset_direction_is_total [of "(4, 6, 3)" "(1, 2, 3)" "sample_part (1, 2, 3)"
      "Plotter []" 9 sample_library sample_walk]
  from i0 have z: "linalg_norm (vec_sub (1, 2, 3) (1, 2, 3)) = 0" by blast
  with i0 have o: "offset_direction (1, 2, 3) (1, 2, 3) = Some (0, 0, 0)" by blast
  from i0 cen have e: "explode_part (Some (1, 2, 3)) (Plotter []) (9, sample_part (1, 2, 3)) =
     Some (add_mesh (Mesh (sample_part (1, 2, 3)))
       [(''color'', S (colors ! (9 mod length colors))), (''opacity'', F 0.8),
        (''show_edges'', B True), (''edge_color'', S ''black''), (''line_width'', F 0.2)]
       (Plotter []))" by blast
  have col: "colors ! (9 mod length colors) = ''blue''"
    by (simp add: colors_def)
  from i1 five have "offset_direction (4, 6, 3) (1, 2, 3) =
      np_divide (vec_sub (4, 6, 3) (1, 2, 3)) (linalg_norm (vec_sub (4, 6, 3) (1, 2, 3)))"
    by simp
  then have d: "offset_direction (4, 6, 3) (1, 2, 3) = Some (3 / 5, 4 / 5, 0)"
    by (simp add: five) (simp add: np_divide_def vec_sub_def)
  from i0 have v: "\<exists>q. exploded_view sample_library sample_walk = Some q" by blast
  from z o cen e [unfolded col] five d v show ?thesis by blast
qed

end
